theory Spec2Isabelle
  imports Main "HOL-Library.Char_ord" "HOL-Library.List_Lexorder" "HOL-Library.Multiset"
    "HOL-Library.Sublist"
begin

section \<open>Values, errors and the library interface\<close>

text \<open>
  The token store (\<^verbatim>\<open>auth_manager.py\<close>) and the API client (\<^verbatim>\<open>whoop_client.py\<close>) work on
  Python dictionaries read from JSON. A JSON value is a \<open>jval\<close>; a dictionary keeps its
  insertion order, as Python's does, so it is an association list with distinct keys.
  \<^verbatim>\<open>None\<close> is \<open>JNull\<close>, which is what \<^verbatim>\<open>json\<close> reads \<^verbatim>\<open>null\<close> as.
  JSON numbers are integers here (the token responses carry \<^verbatim>\<open>expires_in\<close> and
  \<^verbatim>\<open>limit\<close> as integers); strings are byte lists, so \<^verbatim>\<open>encode\<close> and \<^verbatim>\<open>decode\<close> are the
  identity.
\<close>

datatype jval =
    JNull
  | JBool bool
  | JInt int
  | JStr string
  | JList "jval list"
  | JDict "(string \<times> jval) list"

text \<open>
  Every exception the code can raise is a value. The last five are the plain
  \<^verbatim>\<open>Exception(message)\<close> objects of \<^verbatim>\<open>whoop_client.py\<close>, one constructor per message:
  "Rate limit exceeded. ...", "No valid access token available",
  "Authentication failed. ...", "API request failed with status s: text" and
  "Request timed out. ...".
\<close>

datatype error =
    KeyError string
  | TypeError
  | AttributeError
  | ValueError
  | OverflowError
  | InvalidToken
  | JSONDecodeError
  | TransportError
  | RateLimitExceeded
  | NoValidAccessToken
  | AuthenticationFailed
  | ApiRequestFailed nat string
  | RequestTimedOut

text \<open>Python truthiness (\<^verbatim>\<open>if not tokens\<close>, \<^verbatim>\<open>if cached_data\<close>, \<^verbatim>\<open>bool(...)\<close>).\<close>

fun truthy :: "jval \<Rightarrow> bool" where
  "truthy JNull = False"
| "truthy (JBool b) = b"
| "truthy (JInt n) = (n \<noteq> 0)"
| "truthy (JStr s) = (s \<noteq> [])"
| "truthy (JList xs) = (xs \<noteq> [])"
| "truthy (JDict kvs) = (kvs \<noteq> [])"

text \<open>
  \<^verbatim>\<open>d[k]\<close> with a string key: a dictionary looks the key up and raises KeyError when it
  is missing; a string, a list or a number raises TypeError.
\<close>

fun subscript :: "jval \<Rightarrow> string \<Rightarrow> error + jval" where
  "subscript (JDict kvs) k = (case map_of kvs k of None \<Rightarrow> Inl (KeyError k) | Some v \<Rightarrow> Inr v)"
| "subscript v k = Inl TypeError"

text \<open>\<^verbatim>\<open>d.get(k, default)\<close>: only a dictionary has the method.\<close>

fun dict_get :: "jval \<Rightarrow> string \<Rightarrow> jval \<Rightarrow> error + jval" where
  "dict_get (JDict kvs) k dflt = (case map_of kvs k of None \<Rightarrow> Inr dflt | Some v \<Rightarrow> Inr v)"
| "dict_get v k dflt = Inl AttributeError"

text \<open>\<^verbatim>\<open>needle in haystack\<close> for a string needle inside a string.\<close>

fun contains :: "string \<Rightarrow> string \<Rightarrow> bool" where
  "contains needle [] = (needle = [])"
| "contains needle (c # cs) = (prefix needle (c # cs) \<or> contains needle cs)"

text \<open>
  \<^verbatim>\<open>k in tokens\<close> with a string \<open>k\<close>: key membership for a dictionary, substring test for
  a string, element membership for a list, TypeError for the values that are not
  iterable.
\<close>

fun py_in :: "string \<Rightarrow> jval \<Rightarrow> error + bool" where
  "py_in k (JDict kvs) = Inr (map_of kvs k \<noteq> None)"
| "py_in k (JStr s) = Inr (contains k s)"
| "py_in k (JList xs) = Inr (JStr k \<in> set xs)"
| "py_in k v = Inl TypeError"

subsection \<open>Dates and durations\<close>

text \<open>
  A naive \<^verbatim>\<open>datetime\<close> is its number of microseconds since \<^verbatim>\<open>datetime.min\<close>
  (0001-01-01T00:00:00), a \<^verbatim>\<open>timedelta\<close> a number of microseconds. Both types are
  bounded in Python, and leaving the range raises OverflowError.
  \<^verbatim>\<open>total_seconds()\<close> is compared with the whole numbers 60 and 300 only; on a
  microsecond count that comparison is exact, so it is written on microseconds.
\<close>

type_synonym datetime = int
type_synonym timedelta = int

definition datetime_max :: datetime where
  "datetime_max = 315537897599999999"

definition timedelta_max :: timedelta where
  "timedelta_max = 86399999999999999999"

definition timedelta_min :: timedelta where
  "timedelta_min = - 86399999913600000000"

definition valid_datetime :: "datetime \<Rightarrow> bool" where
  "valid_datetime t \<longleftrightarrow> 0 \<le> t \<and> t \<le> datetime_max"

definition seconds :: "int \<Rightarrow> timedelta" where
  "seconds n = n * 1000000"

text \<open>\<^verbatim>\<open>timedelta(seconds=v)\<close> for a JSON value (\<^verbatim>\<open>True\<close> and \<^verbatim>\<open>False\<close> are 1 and 0).\<close>

fun timedelta_seconds :: "jval \<Rightarrow> error + timedelta" where
  "timedelta_seconds (JInt n) =
     (if timedelta_min \<le> seconds n \<and> seconds n \<le> timedelta_max then Inr (seconds n)
      else Inl OverflowError)"
| "timedelta_seconds (JBool b) = Inr (seconds (if b then 1 else 0))"
| "timedelta_seconds v = Inl TypeError"

text \<open>\<^verbatim>\<open>datetime + timedelta\<close>.\<close>

definition datetime_add :: "datetime \<Rightarrow> timedelta \<Rightarrow> error + datetime" where
  "datetime_add t d = (if valid_datetime (t + d) then Inr (t + d) else Inl OverflowError)"

subsection \<open>Library functions\<close>

text \<open>
  The code calls four libraries whose results it only passes on. They are parameters
  of the model:
  \<^item> \<open>fernet_encrypt key iv plaintext\<close> and \<open>fernet_decrypt key token\<close>
    (\<^verbatim>\<open>cryptography.fernet\<close>): encryption draws a fresh initialisation vector \<open>iv\<close>;
    decryption is \<open>None\<close> where the library raises InvalidToken;
  \<^item> \<open>json_dump\<close> (\<^verbatim>\<open>json.dump(v, f, indent=2)\<close>), \<open>json_dumps\<close> (\<^verbatim>\<open>json.dumps(v)\<close>,
    keys in insertion order) and \<open>json_loads\<close>, which is \<open>None\<close> where the library
    raises JSONDecodeError;
  \<^item> \<open>isoformat\<close> and \<open>fromisoformat\<close> (\<^verbatim>\<open>datetime\<close>): \<open>fromisoformat s\<close> is the naive
    datetime that \<open>s\<close> denotes, and \<open>None\<close> where parsing raises ValueError or where the
    result carries a time zone, which makes every later comparison with the naive
    \<^verbatim>\<open>datetime.now()\<close> raise TypeError; both callers treat the two exceptions alike;
  \<^item> \<open>fromtimestamp\<close> (\<^verbatim>\<open>datetime.fromtimestamp\<close>), \<open>None\<close> where it raises.
\<close>

record pylib =
  fernet_encrypt :: "string \<Rightarrow> nat \<Rightarrow> string \<Rightarrow> string"
  fernet_decrypt :: "string \<Rightarrow> string \<Rightarrow> string option"
  json_dump :: "jval \<Rightarrow> string"
  json_dumps :: "jval \<Rightarrow> string"
  json_loads :: "string \<Rightarrow> jval option"
  isoformat :: "datetime \<Rightarrow> string"
  fromisoformat :: "string \<Rightarrow> datetime option"
  fromtimestamp :: "jval \<Rightarrow> datetime option"

text \<open>
  \<^verbatim>\<open>datetime.fromisoformat(v)\<close> on a JSON value: only a string is accepted. ValueError
  stands for both failures that \<open>fromisoformat\<close> reports as \<open>None\<close>.
\<close>

fun parse_iso :: "pylib \<Rightarrow> jval \<Rightarrow> error + datetime" where
  "parse_iso L (JStr s) = (case fromisoformat L s of None \<Rightarrow> Inl ValueError | Some t \<Rightarrow> Inr t)"
| "parse_iso L v = Inl TypeError"

text \<open>An HTTP call ends with a response (status code and body text) or an exception.\<close>

datatype http_outcome =
    Response nat string
  | TimeoutException
  | ConnectionFailed

section \<open>The token store (\<^verbatim>\<open>auth_manager.py\<close>)\<close>

text \<open>
  The state of a \<^verbatim>\<open>TokenManager\<close>: the content of the file at \<^verbatim>\<open>storage_path\<close>
  (\<open>None\<close> when the file does not exist) and the encryption key. Opening, reading
  and writing the file succeed; whether \<^verbatim>\<open>os.remove\<close> succeeds is an input of
  \<^verbatim>\<open>clear_tokens\<close>, which has a handler for its failure.
\<close>

record TokenManager =
  storage :: "string option"
  encryption_key :: string

text \<open>
  \<^verbatim>\<open>_encrypt_data\<close> and \<^verbatim>\<open>_decrypt_data\<close>: \<^verbatim>\<open>data.encode()\<close> exists for a string only.
\<close>

fun encrypt_data :: "pylib \<Rightarrow> TokenManager \<Rightarrow> nat \<Rightarrow> jval \<Rightarrow> error + jval" where
  "encrypt_data L tm iv (JStr s) = Inr (JStr (fernet_encrypt L (encryption_key tm) iv s))"
| "encrypt_data L tm iv v = Inl AttributeError"

fun decrypt_data :: "pylib \<Rightarrow> TokenManager \<Rightarrow> jval \<Rightarrow> error + jval" where
  "decrypt_data L tm (JStr c) =
     (case fernet_decrypt L (encryption_key tm) c of
        None \<Rightarrow> Inl InvalidToken
      | Some p \<Rightarrow> Inr (JStr p))"
| "decrypt_data L tm v = Inl AttributeError"

text \<open>
  What \<^verbatim>\<open>save_tokens\<close> reads from outside: the two \<^verbatim>\<open>datetime.now()\<close> calls and the
  initialisation vectors of the two encryptions.
\<close>

record save_env =
  now_expires :: datetime
  now_created :: datetime
  iv_access :: nat
  iv_refresh :: nat

text \<open>
  The first half of \<^verbatim>\<open>save_tokens\<close>: the expiry time and the dictionary \<^verbatim>\<open>token_data\<close>,
  in the order the code evaluates them.
\<close>

definition token_data :: "pylib \<Rightarrow> save_env \<Rightarrow> jval \<Rightarrow> TokenManager \<Rightarrow> error + jval" where
  "token_data L E tokens tm =
     (case dict_get tokens ''expires_in'' (JInt 3600) of Inl e \<Rightarrow> Inl e
      | Inr expires_in \<Rightarrow>
     (case timedelta_seconds expires_in of Inl e \<Rightarrow> Inl e
      | Inr delta \<Rightarrow>
     (case datetime_add (now_expires E) delta of Inl e \<Rightarrow> Inl e
      | Inr expires_at \<Rightarrow>
     (case subscript tokens ''access_token'' of Inl e \<Rightarrow> Inl e
      | Inr access \<Rightarrow>
     (case encrypt_data L tm (iv_access E) access of Inl e \<Rightarrow> Inl e
      | Inr enc_access \<Rightarrow>
     (case dict_get tokens ''refresh_token'' (JStr []) of Inl e \<Rightarrow> Inl e
      | Inr refresh \<Rightarrow>
     (case encrypt_data L tm (iv_refresh E) refresh of Inl e \<Rightarrow> Inl e
      | Inr enc_refresh \<Rightarrow>
     (case dict_get tokens ''token_type'' (JStr ''Bearer'') of Inl e \<Rightarrow> Inl e
      | Inr token_type \<Rightarrow>
        Inr (JDict
           [(''access_token'', enc_access),
            (''refresh_token'', enc_refresh),
            (''token_type'', token_type),
            (''expires_at'', JStr (isoformat L expires_at)),
            (''created_at'', JStr (isoformat L (now_created E)))])))))))))"

text \<open>
  \<^verbatim>\<open>save_tokens\<close>: the dictionary is written to the file with \<^verbatim>\<open>json.dump\<close>. The
  \<^verbatim>\<open>except\<close> clause logs and re-raises, so an exception leaves the function as it was
  raised, and then the file has not been touched.
\<close>

definition save_tokens ::
  "pylib \<Rightarrow> save_env \<Rightarrow> jval \<Rightarrow> TokenManager \<Rightarrow> (error + unit) \<times> TokenManager" where
  "save_tokens L E tokens tm =
     (case token_data L E tokens tm of
        Inl e \<Rightarrow> (Inl e, tm)
      | Inr record \<Rightarrow> (Inr (), tm\<lparr>storage := Some (json_dump L record)\<rparr>))"

text \<open>
  The body of the \<^verbatim>\<open>try\<close> block of \<^verbatim>\<open>load_tokens\<close>, on the content of an existing file.
  A file that starts with \<^verbatim>\<open>gAAAAA\<close> is one Fernet token holding the JSON document;
  any other file is a JSON object with the two tokens encrypted field by field.
\<close>

definition load_tokens_try :: "pylib \<Rightarrow> TokenManager \<Rightarrow> string \<Rightarrow> error + jval" where
  "load_tokens_try L tm file_content =
     (if prefix ''gAAAAA'' file_content then
        (case fernet_decrypt L (encryption_key tm) file_content of None \<Rightarrow> Inl InvalidToken
         | Some decrypted_data \<Rightarrow>
        (case json_loads L decrypted_data of None \<Rightarrow> Inl JSONDecodeError
         | Some tokens \<Rightarrow> Inr tokens))
      else
        (case json_loads L file_content of None \<Rightarrow> Inl JSONDecodeError
         | Some encrypted_data \<Rightarrow>
        (case subscript encrypted_data ''access_token'' of Inl e \<Rightarrow> Inl e
         | Inr enc_access \<Rightarrow>
        (case decrypt_data L tm enc_access of Inl e \<Rightarrow> Inl e
         | Inr access \<Rightarrow>
        (case subscript encrypted_data ''refresh_token'' of Inl e \<Rightarrow> Inl e
         | Inr enc_refresh \<Rightarrow>
        (case decrypt_data L tm enc_refresh of Inl e \<Rightarrow> Inl e
         | Inr refresh \<Rightarrow>
        (case dict_get encrypted_data ''token_type'' (JStr ''Bearer'') of Inl e \<Rightarrow> Inl e
         | Inr token_type \<Rightarrow>
        (case subscript encrypted_data ''expires_at'' of Inl e \<Rightarrow> Inl e
         | Inr expires_at \<Rightarrow>
        (case subscript encrypted_data ''created_at'' of Inl e \<Rightarrow> Inl e
         | Inr created_at \<Rightarrow>
           Inr (JDict
             [(''access_token'', access),
              (''refresh_token'', refresh),
              (''token_type'', token_type),
              (''expires_at'', expires_at),
              (''created_at'', created_at)]))))))))))"

text \<open>
  \<^verbatim>\<open>load_tokens\<close>. Without a file it returns \<^verbatim>\<open>None\<close>; the \<^verbatim>\<open>except Exception\<close> clause
  logs every exception of the \<^verbatim>\<open>try\<close> block and returns \<^verbatim>\<open>None\<close> as well. The result
  type keeps an error side, which the function never uses.
\<close>

definition load_tokens :: "pylib \<Rightarrow> TokenManager \<Rightarrow> error + jval" where
  "load_tokens L tm =
     (case storage tm of
        None \<Rightarrow> Inr JNull
      | Some file_content \<Rightarrow>
          (case load_tokens_try L tm file_content of
             Inl e \<Rightarrow> Inr JNull
           | Inr tokens \<Rightarrow> Inr tokens))"

text \<open>
  \<^verbatim>\<open>is_token_expired\<close>: every exception of the \<^verbatim>\<open>try\<close> block (a missing key, a value
  that does not parse, an overflow of \<^verbatim>\<open>now + buffer\<close>) means expired.
\<close>

definition buffer_time :: timedelta where
  "buffer_time = seconds (5 * 60)"

definition is_token_expired :: "pylib \<Rightarrow> datetime \<Rightarrow> jval \<Rightarrow> bool" where
  "is_token_expired L now tokens =
     (case subscript tokens ''expires_at'' of Inl e \<Rightarrow> True
      | Inr v \<Rightarrow>
     (case parse_iso L v of Inl e \<Rightarrow> True
      | Inr expires_at \<Rightarrow>
     (case datetime_add now buffer_time of Inl e \<Rightarrow> True
      | Inr deadline \<Rightarrow> deadline \<ge> expires_at)))"

text \<open>
  What \<^verbatim>\<open>get_valid_access_token\<close> reads from outside: the clock of the expiry check,
  the answer of the refresh endpoint to \<^verbatim>\<open>requests.post\<close> with a given refresh token,
  and what \<^verbatim>\<open>save_tokens\<close> reads.
\<close>

record token_env =
  now_check :: datetime
  post_refresh :: "jval \<Rightarrow> http_outcome"
  save_inputs :: save_env

text \<open>
  \<^verbatim>\<open>refresh_tokens\<close>: the new record is saved and returned when the endpoint answers
  200 with a body whose \<^verbatim>\<open>success\<close> is truthy. Every exception (of the request, of
  \<^verbatim>\<open>response.json()\<close>, of \<^verbatim>\<open>token_data.get\<close>, of \<^verbatim>\<open>save_tokens\<close>) is logged and the
  function returns \<^verbatim>\<open>None\<close>.
\<close>

definition refresh_tokens ::
  "pylib \<Rightarrow> token_env \<Rightarrow> jval \<Rightarrow> TokenManager \<Rightarrow> jval \<times> TokenManager" where
  "refresh_tokens L E refresh_token tm =
     (case post_refresh E refresh_token of
        Response status_code body \<Rightarrow>
          if status_code = 200 then
            (case json_loads L body of None \<Rightarrow> (JNull, tm)
             | Some response_data \<Rightarrow>
            (case dict_get response_data ''success'' JNull of Inl e \<Rightarrow> (JNull, tm)
             | Inr success \<Rightarrow>
                 if truthy success then
                   (case save_tokens L (save_inputs E) response_data tm of
                      (Inl e, tm') \<Rightarrow> (JNull, tm')
                    | (Inr u, tm') \<Rightarrow> (response_data, tm'))
                 else (JNull, tm)))
          else (JNull, tm)
      | TimeoutException \<Rightarrow> (JNull, tm)
      | ConnectionFailed \<Rightarrow> (JNull, tm))"

text \<open>
  \<^verbatim>\<open>get_valid_access_token\<close>. The two subscripts on \<^verbatim>\<open>tokens\<close> and the one on the
  refreshed record are outside any \<^verbatim>\<open>try\<close>, so their exceptions leave the function.
\<close>

definition get_valid_access_token ::
  "pylib \<Rightarrow> token_env \<Rightarrow> TokenManager \<Rightarrow> (error + jval) \<times> TokenManager" where
  "get_valid_access_token L E tm =
     (case load_tokens L tm of Inl e \<Rightarrow> (Inl e, tm)
      | Inr tokens \<Rightarrow>
          if \<not> truthy tokens then (Inr JNull, tm)
          else if \<not> is_token_expired L (now_check E) tokens then
            (subscript tokens ''access_token'', tm)
          else
            (case subscript tokens ''refresh_token'' of Inl e \<Rightarrow> (Inl e, tm)
             | Inr refresh_token \<Rightarrow>
                (case refresh_tokens L E refresh_token tm of
                   (refreshed_tokens, tm') \<Rightarrow>
                     if truthy refreshed_tokens then
                       (subscript refreshed_tokens ''access_token'', tm')
                     else (Inr JNull, tm'))))"

text \<open>
  \<^verbatim>\<open>clear_tokens\<close>: the file is removed when it exists. \<open>remove_ok\<close> says whether
  \<^verbatim>\<open>os.remove\<close> succeeds; when it raises, the \<^verbatim>\<open>except\<close> clause logs the exception,
  the function returns normally and the file stays.
\<close>

definition clear_tokens :: "bool \<Rightarrow> TokenManager \<Rightarrow> TokenManager" where
  "clear_tokens remove_ok tm =
     (case storage tm of
        None \<Rightarrow> tm
      | Some file_content \<Rightarrow> if remove_ok then tm\<lparr>storage := None\<rparr> else tm)"

text \<open>
  The \<^verbatim>\<open>if\<close>/\<^verbatim>\<open>elif\<close>/\<^verbatim>\<open>else\<close> of \<^verbatim>\<open>get_token_info\<close> that finds the expiry time;
  \<open>now\<close> is the clock of the last branch.
\<close>

definition token_expires_at :: "pylib \<Rightarrow> datetime \<Rightarrow> jval \<Rightarrow> error + datetime" where
  "token_expires_at L now tokens =
     (case py_in ''expires_at'' tokens of Inl e \<Rightarrow> Inl e
      | Inr has_expires_at \<Rightarrow>
          if has_expires_at then
            (case subscript tokens ''expires_at'' of Inl e \<Rightarrow> Inl e
             | Inr v \<Rightarrow> parse_iso L v)
          else
            (case py_in ''timestamp'' tokens of Inl e \<Rightarrow> Inl e
             | Inr has_timestamp \<Rightarrow>
            (case (if has_timestamp then py_in ''expires_in'' tokens else Inr False) of
               Inl e \<Rightarrow> Inl e
             | Inr has_both \<Rightarrow>
                 if has_both then
                   (case subscript tokens ''timestamp'' of Inl e \<Rightarrow> Inl e
                    | Inr ts \<Rightarrow>
                   (case fromtimestamp L ts of None \<Rightarrow> Inl ValueError
                    | Some created_at \<Rightarrow>
                   (case subscript tokens ''expires_in'' of Inl e \<Rightarrow> Inl e
                    | Inr expires_in \<Rightarrow>
                   (case timedelta_seconds expires_in of Inl e \<Rightarrow> Inl e
                    | Inr delta \<Rightarrow> datetime_add created_at delta))))
                 else datetime_add now (seconds 3600))))"

text \<open>
  \<^verbatim>\<open>get_token_info\<close>, with its three clocks: \<open>now1\<close> for the default expiry, \<open>now2\<close> for
  the comparison \<^verbatim>\<open>datetime.now() > expires_at\<close>, \<open>now3\<close> for the default of
  \<^verbatim>\<open>created_at\<close>. Nothing is caught here.
\<close>

definition get_token_info ::
  "pylib \<Rightarrow> datetime \<Rightarrow> datetime \<Rightarrow> datetime \<Rightarrow> TokenManager \<Rightarrow> error + jval" where
  "get_token_info L now1 now2 now3 tm =
     (case load_tokens L tm of Inl e \<Rightarrow> Inl e
      | Inr tokens \<Rightarrow>
          if \<not> truthy tokens then Inr (JDict [(''status'', JStr ''no_tokens'')])
          else
            (case token_expires_at L now1 tokens of Inl e \<Rightarrow> Inl e
             | Inr expires_at \<Rightarrow>
            (case dict_get tokens ''created_at'' (JStr (isoformat L now3)) of Inl e \<Rightarrow> Inl e
             | Inr created_at \<Rightarrow>
            (case dict_get tokens ''token_type'' (JStr ''Bearer'') of Inl e \<Rightarrow> Inl e
             | Inr token_type \<Rightarrow>
            (case dict_get tokens ''refresh_token'' JNull of Inl e \<Rightarrow> Inl e
             | Inr refresh_token \<Rightarrow>
                Inr (JDict
                  [(''status'', JStr (if now2 > expires_at then ''expired'' else ''valid'')),
                   (''expires_at'', JStr (isoformat L expires_at)),
                   (''created_at'', created_at),
                   (''token_type'', token_type),
                   (''has_refresh_token'', JBool (truthy refresh_token))]))))))"

section \<open>The API client (\<^verbatim>\<open>whoop_client.py\<close>)\<close>

text \<open>The constants of \<^verbatim>\<open>config.py\<close> that the client reads.\<close>

definition WHOOP_API_BASE :: string where
  "WHOOP_API_BASE = ''https://api.prod.whoop.com/developer/v1''"

definition MAX_REQUESTS_PER_MINUTE :: nat where
  "MAX_REQUESTS_PER_MINUTE = 100"

definition CACHE_DURATION :: int where
  "CACHE_DURATION = 300"

text \<open>A cache entry is the dictionary \<^verbatim>\<open>{'data': ..., 'cached_at': ...}\<close>.\<close>

record cache_entry =
  data :: jval
  cached_at :: string

record WhoopClient =
  token_manager :: TokenManager
  cache :: "string \<rightharpoonup> cache_entry"
  request_count :: nat
  request_window_start :: datetime

subsection \<open>Rate limiting\<close>

text \<open>
  \<^verbatim>\<open>_check_rate_limit\<close> is two statements. The first starts a new window when at least
  60 seconds have passed. The second rejects the request when the counter has reached
  the ceiling, and counts it otherwise; a rejected request keeps what the first
  statement did. The ceiling is \<^verbatim>\<open>MAX_REQUESTS_PER_MINUTE\<close>; it is an argument here so
  that the limiter can be stated for any ceiling.
\<close>

definition roll_window :: "datetime \<Rightarrow> WhoopClient \<Rightarrow> WhoopClient" where
  "roll_window now c =
     (if now - request_window_start c \<ge> seconds 60
      then c\<lparr>request_count := 0, request_window_start := now\<rparr>
      else c)"

definition check_rate_limit_at ::
  "nat \<Rightarrow> datetime \<Rightarrow> WhoopClient \<Rightarrow> (error + unit) \<times> WhoopClient" where
  "check_rate_limit_at ceiling now c =
     (let c' = roll_window now c in
      if request_count c' \<ge> ceiling then (Inl RateLimitExceeded, c')
      else (Inr (), c'\<lparr>request_count := request_count c' + 1\<rparr>))"

definition check_rate_limit :: "datetime \<Rightarrow> WhoopClient \<Rightarrow> (error + unit) \<times> WhoopClient" where
  "check_rate_limit = check_rate_limit_at MAX_REQUESTS_PER_MINUTE"

text \<open>
  A run of calls of \<^verbatim>\<open>_check_rate_limit\<close>, one per clock reading, with the outcome of
  each call.
\<close>

fun check_rate_limits ::
  "nat \<Rightarrow> datetime list \<Rightarrow> WhoopClient \<Rightarrow> (error + unit) list \<times> WhoopClient" where
  "check_rate_limits ceiling [] c = ([], c)"
| "check_rate_limits ceiling (now # nows) c =
     (case check_rate_limit_at ceiling now c of
        (r, c') \<Rightarrow>
          (case check_rate_limits ceiling nows c' of (rs, c'') \<Rightarrow> (r # rs, c'')))"

subsection \<open>The cache\<close>

text \<open>
  \<^verbatim>\<open>json.dumps(params, sort_keys=True)\<close> writes the items of every dictionary in the
  order of their keys; \<open>sort_keys\<close> is that reordering, and the text is \<open>json_dumps\<close> of
  the result. Keys are strings, compared as Python compares them.
\<close>

fun sort_keys :: "jval \<Rightarrow> jval" where
  "sort_keys (JList xs) = JList (map sort_keys xs)"
| "sort_keys (JDict kvs) = JDict (sort_key fst (map (map_prod id sort_keys) kvs))"
| "sort_keys v = v"

text \<open>\<^verbatim>\<open>_get_cache_key\<close>; no parameters and an empty dictionary give the endpoint alone.\<close>

definition get_cache_key :: "pylib \<Rightarrow> string \<Rightarrow> (string \<times> jval) list option \<Rightarrow> string" where
  "get_cache_key L endpoint params =
     (case params of
        None \<Rightarrow> endpoint
      | Some p \<Rightarrow>
          if p \<noteq> [] then endpoint @ '':'' @ json_dumps L (sort_keys (JDict p))
          else endpoint)"

text \<open>
  \<^verbatim>\<open>_get_from_cache\<close> returns the payload of a fresh entry, and removes an entry that
  is not fresh and returns \<^verbatim>\<open>None\<close>. \<^verbatim>\<open>fromisoformat\<close> is outside any \<^verbatim>\<open>try\<close>.
\<close>

definition get_from_cache ::
  "pylib \<Rightarrow> datetime \<Rightarrow> string \<Rightarrow> (string \<rightharpoonup> cache_entry) \<Rightarrow>
     (error + jval) \<times> (string \<rightharpoonup> cache_entry)" where
  "get_from_cache L now cache_key ch =
     (case ch cache_key of
        None \<Rightarrow> (Inr JNull, ch)
      | Some cached_data \<Rightarrow>
          (case fromisoformat L (cached_at cached_data) of
             None \<Rightarrow> (Inl ValueError, ch)
           | Some cache_time \<Rightarrow>
               if now - cache_time < seconds CACHE_DURATION then (Inr (data cached_data), ch)
               else (Inr JNull, ch(cache_key := None))))"

text \<open>\<^verbatim>\<open>_save_to_cache\<close>.\<close>

definition save_to_cache ::
  "pylib \<Rightarrow> datetime \<Rightarrow> string \<Rightarrow> jval \<Rightarrow> (string \<rightharpoonup> cache_entry) \<Rightarrow> (string \<rightharpoonup> cache_entry)" where
  "save_to_cache L now cache_key payload ch =
     ch(cache_key \<mapsto> \<lparr>data = payload, cached_at = isoformat L now\<rparr>)"

subsection \<open>Requests\<close>

text \<open>
  What one \<^verbatim>\<open>_make_request\<close> reads from outside: the clocks of the rate limiter, of the
  cache lookup and of the cache insertion, what the token store reads, the outcome
  of \<^verbatim>\<open>client.get(url, headers, params)\<close> as a function of the URL, of the access token
  in the \<^verbatim>\<open>Authorization\<close> header and of the query parameters, and whether
  \<^verbatim>\<open>os.remove\<close> succeeds when \<^verbatim>\<open>clear_tokens\<close> calls it.
\<close>

record request_env =
  now_rate :: datetime
  now_lookup :: datetime
  now_insert :: datetime
  token_inputs :: token_env
  api_get :: "string \<Rightarrow> jval \<Rightarrow> (string \<times> jval) list \<Rightarrow> http_outcome"
  remove_succeeds :: bool

text \<open>\<^verbatim>\<open>_get_headers\<close>, reduced to the access token that goes into the header.\<close>

definition get_headers ::
  "pylib \<Rightarrow> token_env \<Rightarrow> TokenManager \<Rightarrow> (error + jval) \<times> TokenManager" where
  "get_headers L E tm =
     (case get_valid_access_token L E tm of
        (Inl e, tm') \<Rightarrow> (Inl e, tm')
      | (Inr access_token, tm') \<Rightarrow>
          if \<not> truthy access_token then (Inl NoValidAccessToken, tm')
          else (Inr access_token, tm'))"

definition request_url :: "string \<Rightarrow> string" where
  "request_url endpoint = WHOOP_API_BASE @ ''/'' @ dropWhile (\<lambda>ch. ch = CHR ''/'') endpoint"

text \<open>
  The \<^verbatim>\<open>try\<close> block of \<^verbatim>\<open>_make_request\<close> with its two handlers: a timeout becomes
  "Request timed out", every other exception is logged and re-raised.
\<close>

definition handle_response ::
  "pylib \<Rightarrow> request_env \<Rightarrow> string \<Rightarrow> http_outcome \<Rightarrow> WhoopClient \<Rightarrow>
     (error + jval) \<times> WhoopClient" where
  "handle_response L E cache_key outcome c =
     (case outcome of
        Response status_code body \<Rightarrow>
          if status_code = 200 then
            (case json_loads L body of
               None \<Rightarrow> (Inl JSONDecodeError, c)
             | Some payload \<Rightarrow>
                 (Inr payload,
                  c\<lparr>cache := save_to_cache L (now_insert E) cache_key payload (cache c)\<rparr>))
          else if status_code = 401 then
            (Inl AuthenticationFailed,
             c\<lparr>token_manager := clear_tokens (remove_succeeds E) (token_manager c)\<rparr>)
          else (Inl (ApiRequestFailed status_code body), c)
      | TimeoutException \<Rightarrow> (Inl RequestTimedOut, c)
      | ConnectionFailed \<Rightarrow> (Inl TransportError, c))"

text \<open>\<^verbatim>\<open>_make_request\<close>.\<close>

definition make_request ::
  "pylib \<Rightarrow> request_env \<Rightarrow> string \<Rightarrow> (string \<times> jval) list option \<Rightarrow> WhoopClient \<Rightarrow>
     (error + jval) \<times> WhoopClient" where
  "make_request L E endpoint params c =
     (case check_rate_limit (now_rate E) c of
        (Inl e, c1) \<Rightarrow> (Inl e, c1)
      | (Inr u, c1) \<Rightarrow>
          (let cache_key = get_cache_key L endpoint params in
           case get_from_cache L (now_lookup E) cache_key (cache c1) of
             (Inl e, ch) \<Rightarrow> (Inl e, c1\<lparr>cache := ch\<rparr>)
           | (Inr cached_payload, ch) \<Rightarrow>
               if truthy cached_payload then (Inr cached_payload, c1\<lparr>cache := ch\<rparr>)
               else
                 (case get_headers L (token_inputs E) (token_manager c1) of
                    (Inl e, tm') \<Rightarrow> (Inl e, c1\<lparr>cache := ch, token_manager := tm'\<rparr>)
                  | (Inr access_token, tm') \<Rightarrow>
                      handle_response L E cache_key
                        (api_get E (request_url endpoint) access_token
                           (case params of None \<Rightarrow> [] | Some p \<Rightarrow> p))
                        (c1\<lparr>cache := ch, token_manager := tm'\<rparr>))))"

section \<open>A concrete library instance\<close>

text \<open>
  The theorems below hold for every library. To evaluate the model on concrete inputs,
  \<open>sample_lib\<close> fixes one: a cipher that prefixes the plaintext with the Fernet marker
  and the key, a JSON codec on a finite set of named documents, and the ISO texts of a
  few instants of 2024-01-01 with their microsecond counts.
\<close>

definition sample_encrypt :: "string \<Rightarrow> nat \<Rightarrow> string \<Rightarrow> string" where
  "sample_encrypt k iv p = ''gAAAAA'' @ k @ ''|'' @ p"

definition sample_decrypt :: "string \<Rightarrow> string \<Rightarrow> string option" where
  "sample_decrypt k c =
     (let header = ''gAAAAA'' @ k @ ''|''
      in if prefix header c then Some (drop (length header) c) else None)"

definition response_A :: jval where
  "response_A = JDict
     [(''success'', JBool True),
      (''access_token'', JStr ''tokA''),
      (''refresh_token'', JStr ''refA''),
      (''expires_in'', JInt 3600),
      (''token_type'', JStr ''Bearer'')]"

definition response_B :: jval where
  "response_B = JDict
     [(''success'', JBool True),
      (''access_token'', JStr ''tokB''),
      (''refresh_token'', JStr ''refB''),
      (''expires_in'', JInt 3600),
      (''token_type'', JStr ''Bearer'')]"

definition record_A :: jval where
  "record_A = JDict
     [(''access_token'', JStr ''gAAAAAk1|tokA''),
      (''refresh_token'', JStr ''gAAAAAk1|refA''),
      (''token_type'', JStr ''Bearer''),
      (''expires_at'', JStr ''2024-01-01T13:00:00''),
      (''created_at'', JStr ''2024-01-01T12:00:00'')]"

definition record_B :: jval where
  "record_B = JDict
     [(''access_token'', JStr ''gAAAAAk1|tokB''),
      (''refresh_token'', JStr ''gAAAAAk1|refB''),
      (''token_type'', JStr ''Bearer''),
      (''expires_at'', JStr ''2024-01-01T14:00:00''),
      (''created_at'', JStr ''2024-01-01T13:00:00'')]"

definition record_C :: jval where
  "record_C = JDict
     [(''access_token'', JStr ''gAAAAAk1|tokC''),
      (''refresh_token'', JStr ''gAAAAAk1|refC''),
      (''token_type'', JStr ''Bearer''),
      (''expires_at'', JStr ''2024-01-01T12:04:59''),
      (''created_at'', JStr ''2024-01-01T11:04:59'')]"

definition response_Z :: jval where
  "response_Z = JDict
     [(''success'', JBool True),
      (''access_token'', JStr ''tokZ''),
      (''refresh_token'', JStr ''refZ''),
      (''expires_in'', JInt 299),
      (''token_type'', JStr ''Bearer'')]"

definition record_Z :: jval where
  "record_Z = JDict
     [(''access_token'', JStr ''gAAAAAk1|tokZ''),
      (''refresh_token'', JStr ''gAAAAAk1|refZ''),
      (''token_type'', JStr ''Bearer''),
      (''expires_at'', JStr ''2024-01-01T13:04:59''),
      (''created_at'', JStr ''2024-01-01T13:00:00'')]"

definition profile :: jval where
  "profile = JDict [(''user_id'', JInt 123)]"

definition sample_documents :: "(string \<times> jval) list" where
  "sample_documents =
     [(''{response A}'', response_A),
      (''{response B}'', response_B),
      (''{record A}'', record_A),
      (''{record B}'', record_B),
      (''{record C}'', record_C),
      (''{profile}'', profile),
      (''{response Z}'', response_Z),
      (''{record Z}'', record_Z)]"

definition sample_dump :: "jval \<Rightarrow> string" where
  "sample_dump v =
     (case find (\<lambda>doc. snd doc = v) sample_documents of
        None \<Rightarrow> ''null''
      | Some doc \<Rightarrow> fst doc)"

definition sample_instants :: "(string \<times> datetime) list" where
  "sample_instants =
     [(''2024-01-01T11:00:00'', 63839703600000000),
      (''2024-01-01T11:04:59'', 63839703899000000),
      (''2024-01-01T12:00:00'', 63839707200000000),
      (''2024-01-01T12:04:59'', 63839707499000000),
      (''2024-01-01T12:05:00'', 63839707500000000),
      (''2024-01-01T13:00:00'', 63839710800000000),
      (''2024-01-01T14:00:00'', 63839714400000000),
      (''2024-01-01T13:04:59'', 63839711099000000)]"

definition sample_isoformat :: "datetime \<Rightarrow> string" where
  "sample_isoformat t =
     (case find (\<lambda>inst. snd inst = t) sample_instants of
        None \<Rightarrow> ''0001-01-01T00:00:00''
      | Some inst \<Rightarrow> fst inst)"

definition sample_lib :: pylib where
  "sample_lib =
     \<lparr>fernet_encrypt = sample_encrypt,
      fernet_decrypt = sample_decrypt,
      json_dump = sample_dump,
      json_dumps = sample_dump,
      json_loads = map_of sample_documents,
      isoformat = sample_isoformat,
      fromisoformat = map_of sample_instants,
      fromtimestamp = (\<lambda>v. None)\<rparr>"

text \<open>Named instants, in microseconds.\<close>

definition t_11_00 :: datetime where "t_11_00 = 63839703600000000"
definition t_12_00 :: datetime where "t_12_00 = 63839707200000000"
definition t_13_00 :: datetime where "t_13_00 = 63839710800000000"

text \<open>
  Token stores: empty, holding record A under its key \<^verbatim>\<open>k1\<close>, holding record A after
  the key was replaced by \<^verbatim>\<open>k2\<close>, holding record B, holding record C, which expires
  at 12:04:59, and holding record Z, which expires at 13:04:59.
\<close>

definition store_empty :: TokenManager where
  "store_empty = \<lparr>storage = None, encryption_key = ''k1''\<rparr>"

definition store_A :: TokenManager where
  "store_A = \<lparr>storage = Some ''{record A}'', encryption_key = ''k1''\<rparr>"

definition store_A_rotated :: TokenManager where
  "store_A_rotated = \<lparr>storage = Some ''{record A}'', encryption_key = ''k2''\<rparr>"

definition store_B :: TokenManager where
  "store_B = \<lparr>storage = Some ''{record B}'', encryption_key = ''k1''\<rparr>"

definition store_C :: TokenManager where
  "store_C = \<lparr>storage = Some ''{record C}'', encryption_key = ''k1''\<rparr>"

definition store_Z :: TokenManager where
  "store_Z = \<lparr>storage = Some ''{record Z}'', encryption_key = ''k1''\<rparr>"

text \<open>
  Environments of the token store at a given instant: the refresh endpoint answers
  with response B, with a server error, or with response Z, whose token lasts 299
  seconds.
\<close>

definition save_at :: "datetime \<Rightarrow> save_env" where
  "save_at t = \<lparr>now_expires = t, now_created = t, iv_access = 0, iv_refresh = 1\<rparr>"

definition env_refresh_ok :: "datetime \<Rightarrow> token_env" where
  "env_refresh_ok t =
     \<lparr>now_check = t,
      post_refresh = (\<lambda>refresh_token. Response 200 ''{response B}''),
      save_inputs = save_at t\<rparr>"

definition env_refresh_short :: "datetime \<Rightarrow> token_env" where
  "env_refresh_short t =
     \<lparr>now_check = t,
      post_refresh = (\<lambda>refresh_token. Response 200 ''{response Z}''),
      save_inputs = save_at t\<rparr>"

definition env_refresh_down :: "datetime \<Rightarrow> token_env" where
  "env_refresh_down t =
     \<lparr>now_check = t,
      post_refresh = (\<lambda>refresh_token. Response 500 ''Internal Server Error''),
      save_inputs = save_at t\<rparr>"

text \<open>
  Clients at 12:00:00 with record A in the store: one with an empty cache, one with an
  entry for \<^verbatim>\<open>/recovery\<close> cached at 11:00:00. Requests at 12:00:00 whose upstream call
  ends as given, on a file system that removes the credential file when asked, and on
  one where \<^verbatim>\<open>os.remove\<close> fails.
\<close>

definition client_fresh :: WhoopClient where
  "client_fresh =
     \<lparr>token_manager = store_A, cache = Map.empty, request_count = 0,
      request_window_start = t_12_00\<rparr>"

definition client_stale :: WhoopClient where
  "client_stale =
     \<lparr>token_manager = store_A,
      cache = [''/recovery'' \<mapsto> \<lparr>data = profile, cached_at = ''2024-01-01T11:00:00''\<rparr>],
      request_count = 0,
      request_window_start = t_12_00\<rparr>"

definition request_at_noon :: "http_outcome \<Rightarrow> request_env" where
  "request_at_noon outcome =
     \<lparr>now_rate = t_12_00, now_lookup = t_12_00, now_insert = t_12_00,
      token_inputs = env_refresh_ok t_12_00,
      api_get = (\<lambda>url access_token params. outcome),
      remove_succeeds = True\<rparr>"

definition request_at_noon_locked :: "http_outcome \<Rightarrow> request_env" where
  "request_at_noon_locked outcome = (request_at_noon outcome)\<lparr>remove_succeeds := False\<rparr>"

section \<open>The expiry check\<close>

lemma datetime_add_Inr: "datetime_add t d = Inr u \<longleftrightarrow> valid_datetime (t + d) \<and> u = t + d"
  by (auto simp: datetime_add_def)

text \<open>
  Claim C4, as amended. For a record whose \<^verbatim>\<open>expires_at\<close> parses, \<^verbatim>\<open>is_token_expired\<close>
  is true exactly when now plus the 5-minute buffer is greater than or equal to
  \<^verbatim>\<open>expires_at\<close>: true when 5:00 or less remains until expiry (4:59 included), false
  only when more than 5 minutes remain.
\<close>

theorem is_token_expired_buffer:
  assumes "subscript tokens ''expires_at'' = Inr (JStr s)"
    and "fromisoformat L s = Some expires_at"
    and "valid_datetime now"
    and "valid_datetime expires_at"
  shows "(is_token_expired L now tokens \<longleftrightarrow> now + seconds (5 * 60) \<ge> expires_at)
    \<and> (expires_at - now \<le> seconds (5 * 60) \<longrightarrow> is_token_expired L now tokens)
    \<and> (expires_at - now > seconds (5 * 60) \<longrightarrow> \<not> is_token_expired L now tokens)"
proof -
  have iff: "is_token_expired L now tokens \<longleftrightarrow> now + seconds (5 * 60) \<ge> expires_at"
  proof (cases "valid_datetime (now + buffer_time)")
    case True
    then show ?thesis
      using assms(1,2) by (simp add: is_token_expired_def datetime_add_def buffer_time_def)
  next
    case False
    have "0 \<le> now + buffer_time"
      using assms(3) by (simp add: valid_datetime_def buffer_time_def seconds_def)
    with False have "datetime_max < now + buffer_time"
      by (simp add: valid_datetime_def)
    with assms(4) have "expires_at \<le> now + seconds (5 * 60)"
      by (simp add: valid_datetime_def buffer_time_def)
    with False show ?thesis
      using assms(1,2) by (simp add: is_token_expired_def datetime_add_def)
  qed
  then show ?thesis by auto
qed

theorem is_token_expired_buffer_witness:
  "is_token_expired sample_lib t_12_00 (JDict [(''expires_at'', JStr ''2024-01-01T12:05:00'')])
   \<and> \<not> is_token_expired sample_lib t_12_00 (JDict [(''expires_at'', JStr ''2024-01-01T13:00:00'')])"
proof -
  have v: "valid_datetime t_12_00"
    by (simp add: valid_datetime_def t_12_00_def datetime_max_def)
  have p1: "fromisoformat sample_lib ''2024-01-01T12:05:00'' = Some 63839707500000000"
    by (simp add: sample_lib_def sample_instants_def)
  have p2: "fromisoformat sample_lib ''2024-01-01T13:00:00'' = Some 63839710800000000"
    by (simp add: sample_lib_def sample_instants_def)
  have v1: "valid_datetime 63839707500000000" and v2: "valid_datetime 63839710800000000"
    by (simp_all add: valid_datetime_def datetime_max_def)
  have s1: "subscript (JDict [(''expires_at'', JStr ''2024-01-01T12:05:00'')]) ''expires_at''
      = Inr (JStr ''2024-01-01T12:05:00'')"
    by simp
  have s2: "subscript (JDict [(''expires_at'', JStr ''2024-01-01T13:00:00'')]) ''expires_at''
      = Inr (JStr ''2024-01-01T13:00:00'')"
    by simp
  show ?thesis
    using is_token_expired_buffer [OF s1 p1 v v1] is_token_expired_buffer [OF s2 p2 v v2]
    by (simp add: t_12_00_def seconds_def)
qed

text \<open>
  Claim C4 as stated says the check is false when 4:59 remains. At 12:00:00 a record
  that expires at 12:04:59 is expired.
\<close>

theorem is_token_expired_4_59_counterexample:
  "fromisoformat sample_lib ''2024-01-01T12:04:59'' = Some (t_12_00 + seconds (4 * 60 + 59))
   \<and> is_token_expired sample_lib t_12_00 (JDict [(''expires_at'', JStr ''2024-01-01T12:04:59'')])"
  by (simp add: is_token_expired_def sample_lib_def sample_instants_def t_12_00_def seconds_def
      datetime_add_def buffer_time_def valid_datetime_def datetime_max_def)

section \<open>Loading and saving the credential record\<close>




lemma timedelta_seconds_in_range:
  assumes "valid_datetime t" and "valid_datetime (t + seconds n)"
  shows "timedelta_seconds (JInt n) = Inr (seconds n)"
  using assms
  by (simp add: valid_datetime_def datetime_max_def timedelta_min_def timedelta_max_def)

lemma sample_fernet_round_trip:
  "fernet_decrypt sample_lib k (fernet_encrypt sample_lib k iv p) = Some p"
proof -
  define header where "header = ''gAAAAA'' @ k @ ''|''"
  have "sample_encrypt k iv p = header @ p"
    by (simp add: sample_encrypt_def header_def)
  moreover have "sample_decrypt k (header @ p) = Some p"
    unfolding sample_decrypt_def header_def [symmetric] by (simp add: Let_def)
  ultimately show ?thesis
    by (simp add: sample_lib_def)
qed

text \<open>
  Claim C5. A token response with a string \<^verbatim>\<open>access_token\<close>, a string or no
  \<^verbatim>\<open>refresh_token\<close> and an integer or no \<^verbatim>\<open>expires_in\<close> that leads to a representable
  expiry time is saved, and loading it back returns the plaintext tokens, the token
  type, and the two ISO texts that were written. The library is assumed to decrypt
  what it encrypted under the same key, and to parse the written record back, whose
  text starts with a brace and not with the Fernet marker.
\<close>

theorem save_then_load_round_trip:
  fixes L :: pylib and E :: save_env and tm :: TokenManager
  defines "stored \<equiv> (\<lambda>access refresh token_type n. JDict
     [(''access_token'', JStr (fernet_encrypt L (encryption_key tm) (iv_access E) access)),
      (''refresh_token'', JStr (fernet_encrypt L (encryption_key tm) (iv_refresh E) refresh)),
      (''token_type'', token_type),
      (''expires_at'', JStr (isoformat L (now_expires E + seconds n))),
      (''created_at'', JStr (isoformat L (now_created E)))])"
  assumes access: "subscript (JDict kvs) ''access_token'' = Inr (JStr access)"
    and refresh: "dict_get (JDict kvs) ''refresh_token'' (JStr []) = Inr (JStr refresh)"
    and token_type: "dict_get (JDict kvs) ''token_type'' (JStr ''Bearer'') = Inr token_type"
    and expires_in: "dict_get (JDict kvs) ''expires_in'' (JInt 3600) = Inr (JInt n)"
    and now: "valid_datetime (now_expires E)"
    and expiry: "valid_datetime (now_expires E + seconds n)"
    and fernet: "\<And>iv p. fernet_decrypt L (encryption_key tm)
                   (fernet_encrypt L (encryption_key tm) iv p) = Some p"
    and json: "json_loads L (json_dump L (stored access refresh token_type n))
                 = Some (stored access refresh token_type n)"
    and marker: "\<not> prefix ''gAAAAA'' (json_dump L (stored access refresh token_type n))"
  shows "fst (save_tokens L E (JDict kvs) tm) = Inr ()
    \<and> load_tokens L (snd (save_tokens L E (JDict kvs) tm)) = Inr (JDict
        [(''access_token'', JStr access),
         (''refresh_token'', JStr refresh),
         (''token_type'', token_type),
         (''expires_at'', JStr (isoformat L (now_expires E + seconds n))),
         (''created_at'', JStr (isoformat L (now_created E)))])"
proof -
  have td: "token_data L E (JDict kvs) tm = Inr (stored access refresh token_type n)"
    unfolding token_data_def expires_in sum.case timedelta_seconds_in_range [OF now expiry]
      access refresh token_type stored_def
    using expiry by (simp add: datetime_add_def)
  have saved: "save_tokens L E (JDict kvs) tm
      = (Inr (), tm\<lparr>storage := Some (json_dump L (stored access refresh token_type n))\<rparr>)"
    by (simp add: save_tokens_def td)
  have "load_tokens_try L (tm\<lparr>storage := Some (json_dump L (stored access refresh token_type n))\<rparr>)
      (json_dump L (stored access refresh token_type n)) = Inr (JDict
        [(''access_token'', JStr access),
         (''refresh_token'', JStr refresh),
         (''token_type'', token_type),
         (''expires_at'', JStr (isoformat L (now_expires E + seconds n))),
         (''created_at'', JStr (isoformat L (now_created E)))])"
    unfolding load_tokens_try_def using marker json
    by (simp add: stored_def fernet)
  then show ?thesis
    by (simp add: saved load_tokens_def)
qed

theorem save_then_load_round_trip_witness:
  "fst (save_tokens sample_lib (save_at t_12_00) response_A store_empty) = Inr ()
   \<and> load_tokens sample_lib (snd (save_tokens sample_lib (save_at t_12_00) response_A store_empty))
     = Inr (JDict
        [(''access_token'', JStr ''tokA''),
         (''refresh_token'', JStr ''refA''),
         (''token_type'', JStr ''Bearer''),
         (''expires_at'', JStr ''2024-01-01T13:00:00''),
         (''created_at'', JStr ''2024-01-01T12:00:00'')])"
proof -
  let ?kvs = "[(''success'', JBool True), (''access_token'', JStr ''tokA''),
    (''refresh_token'', JStr ''refA''), (''expires_in'', JInt 3600),
    (''token_type'', JStr ''Bearer'')]"
  have enc: "fernet_encrypt sample_lib (encryption_key store_empty) iv p = ''gAAAAAk1|'' @ p" for iv p
    by (simp add: sample_lib_def sample_encrypt_def store_empty_def)
  have iso: "isoformat sample_lib (now_expires (save_at t_12_00) + seconds 3600) = ''2024-01-01T13:00:00''"
    "isoformat sample_lib (now_created (save_at t_12_00)) = ''2024-01-01T12:00:00''"
    by (simp_all add: sample_lib_def sample_isoformat_def sample_instants_def save_at_def
        t_12_00_def seconds_def)
  have a: "subscript (JDict ?kvs) ''access_token'' = Inr (JStr ''tokA'')"
    and r: "dict_get (JDict ?kvs) ''refresh_token'' (JStr []) = Inr (JStr ''refA'')"
    and t: "dict_get (JDict ?kvs) ''token_type'' (JStr ''Bearer'') = Inr (JStr ''Bearer'')"
    and n: "dict_get (JDict ?kvs) ''expires_in'' (JInt 3600) = Inr (JInt 3600)"
    by simp_all
  have v: "valid_datetime (now_expires (save_at t_12_00))"
    "valid_datetime (now_expires (save_at t_12_00) + seconds 3600)"
    by (simp_all add: valid_datetime_def save_at_def t_12_00_def seconds_def datetime_max_def)
  have j: "json_loads sample_lib (json_dump sample_lib record_A) = Some record_A"
    "\<not> prefix ''gAAAAA'' (json_dump sample_lib record_A)"
    by (simp_all add: sample_lib_def sample_dump_def sample_documents_def record_A_def
        response_A_def response_B_def)
  show ?thesis
    using save_then_load_round_trip [of ?kvs "''tokA''" "''refA''" "JStr ''Bearer''" 3600
        "save_at t_12_00" sample_lib store_empty, OF a r t n v sample_fernet_round_trip]
      j
    by (simp add: enc iso record_A_def response_A_def)
qed

section \<open>Obtaining a valid access token\<close>

lemma encrypt_data_Inr: "encrypt_data L tm iv v = Inr c \<Longrightarrow> \<exists>s. v = JStr s"
  by (cases v) simp_all

lemma dict_get_Inr: "dict_get v k d = Inr x \<Longrightarrow> \<exists>kvs. v = JDict kvs"
  by (cases v) simp_all

lemma token_data_Inr:
  assumes "token_data L E tokens tm = Inr doc"
  shows "\<exists>access. subscript tokens ''access_token'' = Inr (JStr access)"
proof -
  from assms obtain access c where "subscript tokens ''access_token'' = Inr access"
    and "encrypt_data L tm (iv_access E) access = Inr c"
    by (auto simp: token_data_def split: sum.splits)
  then show ?thesis
    using encrypt_data_Inr by blast
qed

lemma subscript_truthy: "subscript v k = Inr x \<Longrightarrow> truthy v"
  by (cases v) (auto split: option.splits)

lemma refresh_tokens_success:
  assumes "refresh_tokens L E refresh_token tm = (refreshed, tm')"
    and "refreshed \<noteq> JNull"
  shows "\<exists>body access. post_refresh E refresh_token = Response 200 body
           \<and> json_loads L body = Some refreshed
           \<and> save_tokens L (save_inputs E) refreshed tm = (Inr (), tm')
           \<and> subscript refreshed ''access_token'' = Inr (JStr access)"
proof -
  from assms obtain body where post: "post_refresh E refresh_token = Response 200 body"
    and body: "json_loads L body = Some refreshed"
    and saved: "save_tokens L (save_inputs E) refreshed tm = (Inr (), tm')"
    by (auto simp: refresh_tokens_def split: http_outcome.splits if_splits option.splits
        sum.splits prod.splits)
  from saved obtain doc where "token_data L (save_inputs E) refreshed tm = Inr doc"
    by (auto simp: save_tokens_def split: sum.splits)
  then obtain access where "subscript refreshed ''access_token'' = Inr (JStr access)"
    using token_data_Inr by blast
  with post body saved show ?thesis by blast
qed

lemmas sample_defs =
  sample_lib_def sample_documents_def sample_instants_def sample_dump_def sample_isoformat_def
  sample_encrypt_def sample_decrypt_def record_A_def record_B_def record_C_def response_A_def
  response_B_def profile_def store_empty_def store_A_def store_B_def store_C_def
  store_A_rotated_def save_at_def env_refresh_ok_def env_refresh_down_def t_11_00_def
  t_12_00_def t_13_00_def response_Z_def record_Z_def store_Z_def env_refresh_short_def

lemmas time_defs =
  valid_datetime_def datetime_max_def timedelta_min_def timedelta_max_def seconds_def
  buffer_time_def datetime_add_def

lemma load_store_A:
  "load_tokens sample_lib store_A = Inr (JDict
     [(''access_token'', JStr ''tokA''),
      (''refresh_token'', JStr ''refA''),
      (''token_type'', JStr ''Bearer''),
      (''expires_at'', JStr ''2024-01-01T13:00:00''),
      (''created_at'', JStr ''2024-01-01T12:00:00'')])"
  by (simp add: load_tokens_def load_tokens_try_def sample_defs Let_def)

lemma refresh_ok_at_13:
  "refresh_tokens sample_lib (env_refresh_ok t_13_00) (JStr ''refA'') store_A = (response_B, store_B)"
  by (simp add: refresh_tokens_def save_tokens_def token_data_def sample_defs time_defs)

lemma refresh_down_at_13:
  "refresh_tokens sample_lib (env_refresh_down t_13_00) (JStr ''refA'') store_A = (JNull, store_A)"
  by (simp add: refresh_tokens_def sample_defs)

text \<open>
  Claim C1, as amended. \<^verbatim>\<open>get_valid_access_token\<close> returns \<^verbatim>\<open>None\<close> when no record
  exists; the stored access token when the record is not expired by the
  5-minute-buffer check; \<^verbatim>\<open>None\<close> when the record is expired and the refresh fails;
  and, when the record is expired and the refresh succeeds, the access token of the
  body that the refresh endpoint answered with status 200, which has been saved. So a
  token that it returns is the stored token of a record that is not expired, or the
  token just obtained by the refresh, which is returned as received: its own expiry is
  not checked.
\<close>

theorem get_valid_access_token_cases:
  "(storage tm = None \<longrightarrow> get_valid_access_token L E tm = (Inr JNull, tm))
   \<and> (load_tokens L tm = Inr tokens \<and> subscript tokens ''access_token'' = Inr access
        \<and> \<not> is_token_expired L (now_check E) tokens
      \<longrightarrow> get_valid_access_token L E tm = (Inr access, tm))
   \<and> (load_tokens L tm = Inr tokens \<and> subscript tokens ''refresh_token'' = Inr refresh_token
        \<and> is_token_expired L (now_check E) tokens
        \<and> refresh_tokens L E refresh_token tm = (JNull, tm')
      \<longrightarrow> get_valid_access_token L E tm = (Inr JNull, tm'))
   \<and> (load_tokens L tm = Inr tokens \<and> subscript tokens ''refresh_token'' = Inr refresh_token
        \<and> is_token_expired L (now_check E) tokens
        \<and> refresh_tokens L E refresh_token tm = (refreshed, tm') \<and> refreshed \<noteq> JNull
      \<longrightarrow> (\<exists>body new_access. post_refresh E refresh_token = Response 200 body
             \<and> json_loads L body = Some refreshed
             \<and> subscript refreshed ''access_token'' = Inr (JStr new_access)
             \<and> save_tokens L (save_inputs E) refreshed tm = (Inr (), tm')
             \<and> get_valid_access_token L E tm = (Inr (JStr new_access), tm')))
   \<and> (fst (get_valid_access_token L E tm) = Inr token \<and> token \<noteq> JNull
      \<longrightarrow> (\<exists>tokens. load_tokens L tm = Inr tokens
            \<and> (if is_token_expired L (now_check E) tokens
                then \<exists>refresh_token. subscript tokens ''refresh_token'' = Inr refresh_token
                   \<and> subscript (fst (refresh_tokens L E refresh_token tm)) ''access_token''
                       = Inr token
                else subscript tokens ''access_token'' = Inr token)))"
proof (intro conjI impI)
  assume "storage tm = None"
  then show "get_valid_access_token L E tm = (Inr JNull, tm)"
    by (simp add: get_valid_access_token_def load_tokens_def)
next
  assume "load_tokens L tm = Inr tokens \<and> subscript tokens ''access_token'' = Inr access
        \<and> \<not> is_token_expired L (now_check E) tokens"
  then show "get_valid_access_token L E tm = (Inr access, tm)"
    using subscript_truthy [of tokens "''access_token''" access]
    by (simp add: get_valid_access_token_def)
next
  assume "load_tokens L tm = Inr tokens \<and> subscript tokens ''refresh_token'' = Inr refresh_token
        \<and> is_token_expired L (now_check E) tokens
        \<and> refresh_tokens L E refresh_token tm = (JNull, tm')"
  then show "get_valid_access_token L E tm = (Inr JNull, tm')"
    using subscript_truthy [of tokens "''refresh_token''" refresh_token]
    by (simp add: get_valid_access_token_def)
next
  assume a: "load_tokens L tm = Inr tokens \<and> subscript tokens ''refresh_token'' = Inr refresh_token
        \<and> is_token_expired L (now_check E) tokens
        \<and> refresh_tokens L E refresh_token tm = (refreshed, tm') \<and> refreshed \<noteq> JNull"
  then obtain body new_access where r: "post_refresh E refresh_token = Response 200 body"
      "json_loads L body = Some refreshed"
      "save_tokens L (save_inputs E) refreshed tm = (Inr (), tm')"
      "subscript refreshed ''access_token'' = Inr (JStr new_access)"
    using refresh_tokens_success by blast
  have "get_valid_access_token L E tm = (Inr (JStr new_access), tm')"
    using a r(4) subscript_truthy [of tokens "''refresh_token''" refresh_token]
      subscript_truthy [of refreshed "''access_token''" "JStr new_access"]
    by (simp add: get_valid_access_token_def)
  with r show "\<exists>body new_access. post_refresh E refresh_token = Response 200 body
             \<and> json_loads L body = Some refreshed
             \<and> subscript refreshed ''access_token'' = Inr (JStr new_access)
             \<and> save_tokens L (save_inputs E) refreshed tm = (Inr (), tm')
             \<and> get_valid_access_token L E tm = (Inr (JStr new_access), tm')"
    by blast
next
  assume a: "fst (get_valid_access_token L E tm) = Inr token \<and> token \<noteq> JNull"
  obtain tokens where l: "load_tokens L tm = Inr tokens"
    using load_tokens_def by (cases "load_tokens L tm") (auto split: option.splits sum.splits)
  from a l have "if is_token_expired L (now_check E) tokens
                then \<exists>refresh_token. subscript tokens ''refresh_token'' = Inr refresh_token
                   \<and> subscript (fst (refresh_tokens L E refresh_token tm)) ''access_token''
                       = Inr token
                else subscript tokens ''access_token'' = Inr token"
    by (auto simp: get_valid_access_token_def split: if_splits sum.splits prod.splits)
  with l show "\<exists>tokens. load_tokens L tm = Inr tokens
            \<and> (if is_token_expired L (now_check E) tokens
                then \<exists>refresh_token. subscript tokens ''refresh_token'' = Inr refresh_token
                   \<and> subscript (fst (refresh_tokens L E refresh_token tm)) ''access_token''
                       = Inr token
                else subscript tokens ''access_token'' = Inr token)"
    by blast
qed

theorem get_valid_access_token_cases_witness:
  "get_valid_access_token sample_lib (env_refresh_ok t_12_00) store_empty = (Inr JNull, store_empty)
   \<and> get_valid_access_token sample_lib (env_refresh_ok t_12_00) store_A = (Inr (JStr ''tokA''), store_A)
   \<and> get_valid_access_token sample_lib (env_refresh_down t_13_00) store_A = (Inr JNull, store_A)
   \<and> get_valid_access_token sample_lib (env_refresh_ok t_13_00) store_A = (Inr (JStr ''tokB''), store_B)"
proof -
  let ?tokens = "JDict
     [(''access_token'', JStr ''tokA''),
      (''refresh_token'', JStr ''refA''),
      (''token_type'', JStr ''Bearer''),
      (''expires_at'', JStr ''2024-01-01T13:00:00''),
      (''created_at'', JStr ''2024-01-01T12:00:00'')]"
  have none: "storage store_empty = None"
    by (simp add: store_empty_def)
  have fresh: "\<not> is_token_expired sample_lib (now_check (env_refresh_ok t_12_00)) ?tokens"
    by (simp add: is_token_expired_def sample_defs time_defs)
  have stale: "is_token_expired sample_lib (now_check (env_refresh_ok t_13_00)) ?tokens"
    "is_token_expired sample_lib (now_check (env_refresh_down t_13_00)) ?tokens"
    by (simp_all add: is_token_expired_def sample_defs time_defs)
  have a: "subscript ?tokens ''access_token'' = Inr (JStr ''tokA'')"
    and r: "subscript ?tokens ''refresh_token'' = Inr (JStr ''refA'')"
    by simp_all
  have b: "response_B \<noteq> JNull" "subscript response_B ''access_token'' = Inr (JStr ''tokB'')"
    by (simp_all add: response_B_def)
  have no_record: "get_valid_access_token sample_lib (env_refresh_ok t_12_00) store_empty
      = (Inr JNull, store_empty)"
    using get_valid_access_token_cases [where tm = store_empty and L = sample_lib
        and E = "env_refresh_ok t_12_00", THEN conjunct1] none
    by simp
  have not_expired: "get_valid_access_token sample_lib (env_refresh_ok t_12_00) store_A
      = (Inr (JStr ''tokA''), store_A)"
    using get_valid_access_token_cases [where tm = store_A and L = sample_lib
        and tokens = ?tokens and access = "JStr ''tokA''" and E = "env_refresh_ok t_12_00",
        THEN conjunct2, THEN conjunct1] load_store_A fresh a
    by simp
  have refresh_failed: "get_valid_access_token sample_lib (env_refresh_down t_13_00) store_A
      = (Inr JNull, store_A)"
    using get_valid_access_token_cases [where tm = store_A and L = sample_lib
        and tokens = ?tokens and E = "env_refresh_down t_13_00"
        and refresh_token = "JStr ''refA''" and tm' = store_A,
        THEN conjunct2, THEN conjunct2, THEN conjunct1] load_store_A stale(2) r
      refresh_down_at_13
    by simp
  have "\<exists>body new_access. post_refresh (env_refresh_ok t_13_00) (JStr ''refA'') = Response 200 body
      \<and> json_loads sample_lib body = Some response_B
      \<and> subscript response_B ''access_token'' = Inr (JStr new_access)
      \<and> save_tokens sample_lib (save_inputs (env_refresh_ok t_13_00)) response_B store_A
          = (Inr (), store_B)
      \<and> get_valid_access_token sample_lib (env_refresh_ok t_13_00) store_A
          = (Inr (JStr new_access), store_B)"
    using get_valid_access_token_cases [where tm = store_A and L = sample_lib
        and tokens = ?tokens and E = "env_refresh_ok t_13_00"
        and refresh_token = "JStr ''refA''" and tm' = store_B and refreshed = response_B,
        THEN conjunct2, THEN conjunct2, THEN conjunct2, THEN conjunct1] load_store_A stale(1) r
      refresh_ok_at_13 b(1)
    by simp
  then have refreshed: "get_valid_access_token sample_lib (env_refresh_ok t_13_00) store_A
      = (Inr (JStr ''tokB''), store_B)"
    using b(2) by auto
  from no_record not_expired refresh_failed refreshed show ?thesis
    by simp
qed

text \<open>
  Claim C1 as stated says that an expired token is never returned. At 13:00:00 record A
  is expired and the refresh endpoint answers with a token that lasts 299 seconds. The
  new token is returned, and the record saved for it, which expires at 13:04:59, is
  expired by the 5-minute-buffer check at the same instant.
\<close>

theorem refreshed_token_expired_counterexample:
  "get_valid_access_token sample_lib (env_refresh_short t_13_00) store_A
     = (Inr (JStr ''tokZ''), store_Z)
   \<and> load_tokens sample_lib store_Z = Inr (JDict
     [(''access_token'', JStr ''tokZ''),
      (''refresh_token'', JStr ''refZ''),
      (''token_type'', JStr ''Bearer''),
      (''expires_at'', JStr ''2024-01-01T13:04:59''),
      (''created_at'', JStr ''2024-01-01T13:00:00'')])
   \<and> is_token_expired sample_lib t_13_00 (JDict
     [(''access_token'', JStr ''tokZ''),
      (''refresh_token'', JStr ''refZ''),
      (''token_type'', JStr ''Bearer''),
      (''expires_at'', JStr ''2024-01-01T13:04:59''),
      (''created_at'', JStr ''2024-01-01T13:00:00'')])"
proof -
  have stale: "is_token_expired sample_lib (now_check (env_refresh_short t_13_00)) (JDict
     [(''access_token'', JStr ''tokA''),
      (''refresh_token'', JStr ''refA''),
      (''token_type'', JStr ''Bearer''),
      (''expires_at'', JStr ''2024-01-01T13:00:00''),
      (''created_at'', JStr ''2024-01-01T12:00:00'')])"
    by (simp add: is_token_expired_def sample_defs time_defs)
  have refreshed: "refresh_tokens sample_lib (env_refresh_short t_13_00) (JStr ''refA'') store_A
      = (response_Z, store_Z)"
    by (simp add: refresh_tokens_def save_tokens_def token_data_def sample_defs time_defs)
  have returned: "get_valid_access_token sample_lib (env_refresh_short t_13_00) store_A
     = (Inr (JStr ''tokZ''), store_Z)"
    using stale by (simp add: get_valid_access_token_def load_store_A refreshed)
      (simp add: response_Z_def)
  have loaded: "load_tokens sample_lib store_Z = Inr (JDict
     [(''access_token'', JStr ''tokZ''),
      (''refresh_token'', JStr ''refZ''),
      (''token_type'', JStr ''Bearer''),
      (''expires_at'', JStr ''2024-01-01T13:04:59''),
      (''created_at'', JStr ''2024-01-01T13:00:00'')])"
    by (simp add: load_tokens_def load_tokens_try_def sample_defs Let_def)
  have expired: "is_token_expired sample_lib t_13_00 (JDict
     [(''access_token'', JStr ''tokZ''),
      (''refresh_token'', JStr ''refZ''),
      (''token_type'', JStr ''Bearer''),
      (''expires_at'', JStr ''2024-01-01T13:04:59''),
      (''created_at'', JStr ''2024-01-01T13:00:00'')])"
    by (simp add: is_token_expired_def sample_defs time_defs)
  from returned loaded expired show ?thesis
    by simp
qed

section \<open>The status summary\<close>

lemma get_token_info_status:
  assumes "load_tokens L tm = Inr (JDict kvs)"
    and "map_of kvs ''expires_at'' = Some (JStr s)"
    and "fromisoformat L s = Some expires_at"
  shows "\<exists>info. get_token_info L now1 now now3 tm = Inr (JDict info)
           \<and> map_of info ''status'' = Some (JStr (if now > expires_at then ''expired'' else ''valid''))"
proof -
  from assms(2) have "kvs \<noteq> []" by auto
  moreover have "token_expires_at L now1 (JDict kvs) = Inr expires_at"
    using assms(2,3) by (simp add: token_expires_at_def)
  ultimately show ?thesis
    using assms(1) by (simp add: get_token_info_def split: option.split)
qed

lemma expired_within_buffer:
  assumes "subscript tokens ''expires_at'' = Inr (JStr s)"
    and "fromisoformat L s = Some expires_at"
    and "expires_at < now + seconds (5 * 60)"
  shows "is_token_expired L now tokens"
  using assms by (simp add: is_token_expired_def datetime_add_def buffer_time_def)

lemma load_store_C:
  "load_tokens sample_lib store_C = Inr (JDict
     [(''access_token'', JStr ''tokC''),
      (''refresh_token'', JStr ''refC''),
      (''token_type'', JStr ''Bearer''),
      (''expires_at'', JStr ''2024-01-01T12:04:59''),
      (''created_at'', JStr ''2024-01-01T11:04:59'')])"
  by (simp add: load_tokens_def load_tokens_try_def sample_defs Let_def)

text \<open>
  Claim C10. \<^verbatim>\<open>get_token_info\<close> reports \<^verbatim>\<open>expired\<close> exactly when now is later than
  \<^verbatim>\<open>expires_at\<close>, without a buffer. For a record whose \<^verbatim>\<open>expires_at\<close> lies strictly
  between now and now plus 5 minutes it reports \<^verbatim>\<open>valid\<close>, while \<^verbatim>\<open>is_token_expired\<close>
  is true for the same record at the same instant and \<^verbatim>\<open>get_valid_access_token\<close>
  takes the refresh path.
\<close>

theorem status_summary_has_no_buffer:
  assumes "load_tokens L tm = Inr (JDict kvs)"
    and "map_of kvs ''expires_at'' = Some (JStr s)"
    and "fromisoformat L s = Some expires_at"
  shows "(\<exists>info. get_token_info L now1 now now3 tm = Inr (JDict info)
           \<and> map_of info ''status''
               = Some (JStr (if now > expires_at then ''expired'' else ''valid'')))
    \<and> (now < expires_at \<and> expires_at < now + seconds (5 * 60) \<longrightarrow>
         (\<exists>info. get_token_info L now1 now now3 tm = Inr (JDict info)
            \<and> map_of info ''status'' = Some (JStr ''valid''))
         \<and> is_token_expired L now (JDict kvs)
         \<and> (\<forall>E. now_check E = now \<longrightarrow>
               get_valid_access_token L E tm =
                 (case subscript (JDict kvs) ''refresh_token'' of
                    Inl e \<Rightarrow> (Inl e, tm)
                  | Inr refresh_token \<Rightarrow>
                      (case refresh_tokens L E refresh_token tm of
                         (refreshed, tm') \<Rightarrow>
                           if truthy refreshed then (subscript refreshed ''access_token'', tm')
                           else (Inr JNull, tm')))))"
proof (intro conjI impI allI)
  show info: "\<exists>info. get_token_info L now1 now now3 tm = Inr (JDict info)
           \<and> map_of info ''status''
               = Some (JStr (if now > expires_at then ''expired'' else ''valid''))"
    using get_token_info_status [OF assms] .
  assume window: "now < expires_at \<and> expires_at < now + seconds (5 * 60)"
  with info show "\<exists>info. get_token_info L now1 now now3 tm = Inr (JDict info)
            \<and> map_of info ''status'' = Some (JStr ''valid'')"
    by simp
  have sub: "subscript (JDict kvs) ''expires_at'' = Inr (JStr s)"
    using assms(2) by simp
  from window show expired: "is_token_expired L now (JDict kvs)"
    using expired_within_buffer [OF sub assms(3)] by simp
  fix E :: token_env
  assume "now_check E = now"
  moreover from assms(2) have "kvs \<noteq> []" by auto
  ultimately show "get_valid_access_token L E tm =
                 (case subscript (JDict kvs) ''refresh_token'' of
                    Inl e \<Rightarrow> (Inl e, tm)
                  | Inr refresh_token \<Rightarrow>
                      (case refresh_tokens L E refresh_token tm of
                         (refreshed, tm') \<Rightarrow>
                           if truthy refreshed then (subscript refreshed ''access_token'', tm')
                           else (Inr JNull, tm')))"
    using expired assms(1) by (simp add: get_valid_access_token_def)
qed

theorem status_summary_has_no_buffer_witness:
  "get_token_info sample_lib t_12_00 t_12_00 t_12_00 store_C = Inr (JDict
     [(''status'', JStr ''valid''),
      (''expires_at'', JStr ''2024-01-01T12:04:59''),
      (''created_at'', JStr ''2024-01-01T11:04:59''),
      (''token_type'', JStr ''Bearer''),
      (''has_refresh_token'', JBool True)])
   \<and> is_token_expired sample_lib t_12_00 (JDict
     [(''access_token'', JStr ''tokC''),
      (''refresh_token'', JStr ''refC''),
      (''token_type'', JStr ''Bearer''),
      (''expires_at'', JStr ''2024-01-01T12:04:59''),
      (''created_at'', JStr ''2024-01-01T11:04:59'')])
   \<and> get_valid_access_token sample_lib (env_refresh_down t_12_00) store_C = (Inr JNull, store_C)"
proof -
  let ?kvs = "[(''access_token'', JStr ''tokC''),
      (''refresh_token'', JStr ''refC''),
      (''token_type'', JStr ''Bearer''),
      (''expires_at'', JStr ''2024-01-01T12:04:59''),
      (''created_at'', JStr ''2024-01-01T11:04:59'')]"
  have m: "map_of ?kvs ''expires_at'' = Some (JStr ''2024-01-01T12:04:59'')"
    by simp
  have p: "fromisoformat sample_lib ''2024-01-01T12:04:59'' = Some 63839707499000000"
    by (simp add: sample_defs)
  have w: "t_12_00 < 63839707499000000 \<and> 63839707499000000 < t_12_00 + seconds (5 * 60)"
    by (simp add: t_12_00_def seconds_def)
  have n: "now_check (env_refresh_down t_12_00) = t_12_00"
    by (simp add: env_refresh_down_def)
  have r: "refresh_tokens sample_lib (env_refresh_down t_12_00) (JStr ''refC'') store_C
      = (JNull, store_C)"
    by (simp add: refresh_tokens_def sample_defs)
  have i: "isoformat sample_lib 63839707499000000 = ''2024-01-01T12:04:59''"
    by (simp add: sample_defs)
  have g: "get_token_info sample_lib t_12_00 t_12_00 t_12_00 store_C = Inr (JDict info)
      \<Longrightarrow> map_of info ''status'' = Some (JStr ''valid'')
      \<Longrightarrow> info = [(''status'', JStr ''valid''),
      (''expires_at'', JStr ''2024-01-01T12:04:59''),
      (''created_at'', JStr ''2024-01-01T11:04:59''),
      (''token_type'', JStr ''Bearer''),
      (''has_refresh_token'', JBool True)]" for info
    by (auto simp add: get_token_info_def load_store_C token_expires_at_def p i
        split: if_splits)
  from status_summary_has_no_buffer [OF load_store_C m p, of t_12_00 t_12_00 t_12_00] w
  have "(\<exists>info. get_token_info sample_lib t_12_00 t_12_00 t_12_00 store_C = Inr (JDict info)
            \<and> map_of info ''status'' = Some (JStr ''valid''))"
    and "is_token_expired sample_lib t_12_00 (JDict ?kvs)"
    and "get_valid_access_token sample_lib (env_refresh_down t_12_00) store_C =
                 (case subscript (JDict ?kvs) ''refresh_token'' of
                    Inl e \<Rightarrow> (Inl e, store_C)
                  | Inr refresh_token \<Rightarrow>
                      (case refresh_tokens sample_lib (env_refresh_down t_12_00) refresh_token store_C of
                         (refreshed, tm') \<Rightarrow>
                           if truthy refreshed then (subscript refreshed ''access_token'', tm')
                           else (Inr JNull, tm')))"
    using n by blast+
  then show ?thesis
    using g by (auto simp: r)
qed

section \<open>The rate limiter\<close>

lemma roll_window_in_window:
  "now - request_window_start c < seconds 60 \<Longrightarrow> roll_window now c = c"
  by (simp add: roll_window_def)

lemma check_rate_limits_in_window:
  assumes "request_count c + length nows \<le> N"
    and "\<forall>t \<in> set nows. t - request_window_start c < seconds 60"
  shows "check_rate_limits N nows c
    = (replicate (length nows) (Inr ()), c\<lparr>request_count := request_count c + length nows\<rparr>)"
  using assms
proof (induction nows arbitrary: c)
  case Nil
  then show ?case by simp
next
  case (Cons now nows)
  let ?c' = "c\<lparr>request_count := request_count c + 1\<rparr>"
  from Cons.prems have step: "check_rate_limit_at N now c = (Inr (), ?c')"
    by (simp add: check_rate_limit_at_def roll_window_in_window)
  from Cons.prems have "request_count ?c' + length nows \<le> N"
    and "\<forall>t \<in> set nows. t - request_window_start ?c' < seconds 60"
    by simp_all
  then have "check_rate_limits N nows ?c'
    = (replicate (length nows) (Inr ()), ?c'\<lparr>request_count := request_count ?c' + length nows\<rparr>)"
    by (rule Cons.IH)
  with step show ?case by simp
qed

lemma check_rate_limits_append:
  "check_rate_limits N (xs @ ys) c =
     (case check_rate_limits N xs c of
        (rs, c') \<Rightarrow> (case check_rate_limits N ys c' of (rs', c'') \<Rightarrow> (rs @ rs', c'')))"
  by (induction xs arbitrary: c) (simp_all split: prod.splits)

text \<open>
  Claim C6. The first statement of \<^verbatim>\<open>_check_rate_limit\<close> sets the counter to 0 and
  starts a new window whenever at least 60 seconds have passed since the window
  started. With ceiling \<open>N\<close>, \<open>N\<close> requests inside one window that starts with the counter
  at 0 are accepted and the next request inside that window is rejected; the rejected
  request leaves the counter at \<open>N\<close> and is not kept anywhere. The first request after
  the window has passed is accepted and counted as the first of the new window, for
  every positive ceiling and so for the configured ceiling of 100.
\<close>

theorem rate_limit_fixed_window:
  "(now - request_window_start c \<ge> seconds 60 \<longrightarrow>
      request_count (roll_window now c) = 0 \<and> request_window_start (roll_window now c) = now)
   \<and> (request_count c = 0 \<and> length nows = N
        \<and> (\<forall>t \<in> set nows. t - request_window_start c < seconds 60)
        \<and> next_now - request_window_start c < seconds 60 \<longrightarrow>
      check_rate_limits N (nows @ [next_now]) c
        = (replicate N (Inr ()) @ [Inl RateLimitExceeded], c\<lparr>request_count := N\<rparr>))
   \<and> (0 < N \<and> now - request_window_start c \<ge> seconds 60 \<longrightarrow>
      check_rate_limit_at N now c
        = (Inr (), c\<lparr>request_count := 1, request_window_start := now\<rparr>))
   \<and> (now - request_window_start c \<ge> seconds 60 \<longrightarrow>
      check_rate_limit now c = (Inr (), c\<lparr>request_count := 1, request_window_start := now\<rparr>))"
proof (intro conjI impI)
  assume "now - request_window_start c \<ge> seconds 60"
  then show "request_count (roll_window now c) = 0"
    and "request_window_start (roll_window now c) = now"
    and "check_rate_limit now c = (Inr (), c\<lparr>request_count := 1, request_window_start := now\<rparr>)"
    by (simp_all add: roll_window_def check_rate_limit_def check_rate_limit_at_def
        MAX_REQUESTS_PER_MINUTE_def)
next
  assume a: "request_count c = 0 \<and> length nows = N
        \<and> (\<forall>t \<in> set nows. t - request_window_start c < seconds 60)
        \<and> next_now - request_window_start c < seconds 60"
  then have run: "check_rate_limits N nows c
      = (replicate N (Inr ()), c\<lparr>request_count := N\<rparr>)"
    using check_rate_limits_in_window [of c nows N] by simp
  from a have "check_rate_limit_at N next_now (c\<lparr>request_count := N\<rparr>)
      = (Inl RateLimitExceeded, c\<lparr>request_count := N\<rparr>)"
    by (simp add: check_rate_limit_at_def roll_window_in_window)
  with run show "check_rate_limits N (nows @ [next_now]) c
        = (replicate N (Inr ()) @ [Inl RateLimitExceeded], c\<lparr>request_count := N\<rparr>)"
    by (simp add: check_rate_limits_append)
next
  assume "0 < N \<and> now - request_window_start c \<ge> seconds 60"
  then show "check_rate_limit_at N now c
        = (Inr (), c\<lparr>request_count := 1, request_window_start := now\<rparr>)"
    by (simp add: roll_window_def check_rate_limit_at_def)
qed

theorem rate_limit_fixed_window_witness:
  "request_count (roll_window t_13_00 (client_fresh\<lparr>request_count := 100\<rparr>)) = 0
   \<and> check_rate_limits 2 [t_12_00 + seconds 1, t_12_00 + seconds 2, t_12_00 + seconds 3]
        client_fresh
     = ([Inr (), Inr (), Inl RateLimitExceeded], client_fresh\<lparr>request_count := 2\<rparr>)
   \<and> check_rate_limit_at 2 t_13_00 (client_fresh\<lparr>request_count := 2\<rparr>)
     = (Inr (), client_fresh\<lparr>request_count := 1, request_window_start := t_13_00\<rparr>)
   \<and> check_rate_limit t_13_00 (client_fresh\<lparr>request_count := 100\<rparr>)
     = (Inr (), client_fresh\<lparr>request_count := 1, request_window_start := t_13_00\<rparr>)"
proof -
  have late: "t_13_00 - request_window_start (client_fresh\<lparr>request_count := n\<rparr>) \<ge> seconds 60"
    for n
    by (simp add: client_fresh_def t_13_00_def t_12_00_def seconds_def)
  have early: "request_count client_fresh = 0
      \<and> length [t_12_00 + seconds 1, t_12_00 + seconds 2] = 2
      \<and> (\<forall>t \<in> set [t_12_00 + seconds 1, t_12_00 + seconds 2].
            t - request_window_start client_fresh < seconds 60)
      \<and> t_12_00 + seconds 3 - request_window_start client_fresh < seconds 60"
    by (simp add: client_fresh_def seconds_def)
  have reset: "request_count (roll_window t_13_00 (client_fresh\<lparr>request_count := 100\<rparr>)) = 0"
    using rate_limit_fixed_window [where now = t_13_00
        and c = "client_fresh\<lparr>request_count := 100\<rparr>", THEN conjunct1] late
    by simp
  have rejected: "check_rate_limits 2
        [t_12_00 + seconds 1, t_12_00 + seconds 2, t_12_00 + seconds 3] client_fresh
      = ([Inr (), Inr (), Inl RateLimitExceeded], client_fresh\<lparr>request_count := 2\<rparr>)"
    using rate_limit_fixed_window [where c = client_fresh
        and nows = "[t_12_00 + seconds 1, t_12_00 + seconds 2]" and N = 2
        and next_now = "t_12_00 + seconds 3", THEN conjunct2, THEN conjunct1] early
    by (simp add: numeral_2_eq_2)
  have rollover: "check_rate_limit_at 2 t_13_00 (client_fresh\<lparr>request_count := 2\<rparr>)
      = (Inr (), client_fresh\<lparr>request_count := 1, request_window_start := t_13_00\<rparr>)"
    using rate_limit_fixed_window [where now = t_13_00 and N = 2
        and c = "client_fresh\<lparr>request_count := 2\<rparr>",
        THEN conjunct2, THEN conjunct2, THEN conjunct1] late
    by simp
  have configured: "check_rate_limit t_13_00 (client_fresh\<lparr>request_count := 100\<rparr>)
      = (Inr (), client_fresh\<lparr>request_count := 1, request_window_start := t_13_00\<rparr>)"
    using rate_limit_fixed_window [where now = t_13_00
        and c = "client_fresh\<lparr>request_count := 100\<rparr>",
        THEN conjunct2, THEN conjunct2, THEN conjunct2] late
    by simp
  from reset rejected rollover configured show ?thesis
    by simp
qed

section \<open>The response cache\<close>

text \<open>
  Claim C7. A lookup of an entry whose age is 300 seconds or more returns \<^verbatim>\<open>None\<close> and
  removes the entry; a lookup of a younger entry returns its payload and leaves the
  cache as it was. In particular a payload saved with \<^verbatim>\<open>_save_to_cache\<close> comes back
  unchanged while it is younger than 300 seconds, the written timestamp being read
  back as the instant it was written at.
\<close>

theorem cache_ttl:
  "(ch cache_key = Some entry \<and> fromisoformat L (cached_at entry) = Some cache_time
      \<and> now - cache_time \<ge> seconds 300 \<longrightarrow>
      get_from_cache L now cache_key ch = (Inr JNull, ch(cache_key := None)))
   \<and> (ch cache_key = Some entry \<and> fromisoformat L (cached_at entry) = Some cache_time
      \<and> now - cache_time < seconds 300 \<longrightarrow>
      get_from_cache L now cache_key ch = (Inr (data entry), ch))
   \<and> (fromisoformat L (isoformat L saved_at) = Some saved_at \<and> now - saved_at < seconds 300 \<longrightarrow>
      get_from_cache L now cache_key (save_to_cache L saved_at cache_key payload ch)
        = (Inr payload, save_to_cache L saved_at cache_key payload ch))
   \<and> (fromisoformat L (isoformat L saved_at) = Some saved_at \<and> now - saved_at \<ge> seconds 300 \<longrightarrow>
      get_from_cache L now cache_key (save_to_cache L saved_at cache_key payload ch)
        = (Inr JNull, ch(cache_key := None)))"
  by (simp add: get_from_cache_def save_to_cache_def CACHE_DURATION_def)

theorem cache_ttl_witness:
  "get_from_cache sample_lib t_12_00 ''/recovery'' (cache client_stale)
     = (Inr JNull, (cache client_stale)(''/recovery'' := None))
   \<and> get_from_cache sample_lib (t_11_00 + seconds 299) ''/recovery'' (cache client_stale)
     = (Inr profile, cache client_stale)
   \<and> get_from_cache sample_lib (t_12_00 + seconds 299) ''/cycle''
        (save_to_cache sample_lib t_12_00 ''/cycle'' profile Map.empty)
     = (Inr profile, save_to_cache sample_lib t_12_00 ''/cycle'' profile Map.empty)
   \<and> get_from_cache sample_lib (t_12_00 + seconds 300) ''/cycle''
        (save_to_cache sample_lib t_12_00 ''/cycle'' profile Map.empty)
     = (Inr JNull, Map.empty)"
proof -
  let ?entry = "\<lparr>data = profile, cached_at = ''2024-01-01T11:00:00''\<rparr>"
  have stored: "cache client_stale ''/recovery'' = Some ?entry"
    by (simp add: client_stale_def)
  have parsed: "fromisoformat sample_lib (cached_at ?entry) = Some t_11_00"
    by (simp add: sample_defs)
  have round_trip: "fromisoformat sample_lib (isoformat sample_lib t_12_00) = Some t_12_00"
    by (simp add: sample_defs)
  have ages: "t_12_00 - t_11_00 \<ge> seconds 300" "t_11_00 + seconds 299 - t_11_00 < seconds 300"
    "t_12_00 + seconds 299 - t_12_00 < seconds 300" "t_12_00 + seconds 300 - t_12_00 \<ge> seconds 300"
    by (simp_all add: t_12_00_def t_11_00_def seconds_def)
  have stale: "get_from_cache sample_lib t_12_00 ''/recovery'' (cache client_stale)
     = (Inr JNull, (cache client_stale)(''/recovery'' := None))"
    using cache_ttl [where ch = "cache client_stale" and cache_key = "''/recovery''"
        and entry = ?entry and L = sample_lib and cache_time = t_11_00 and now = t_12_00,
        THEN conjunct1] stored parsed ages(1)
    by simp
  have fresh: "get_from_cache sample_lib (t_11_00 + seconds 299) ''/recovery'' (cache client_stale)
     = (Inr profile, cache client_stale)"
    using cache_ttl [where ch = "cache client_stale" and cache_key = "''/recovery''"
        and entry = ?entry and L = sample_lib and cache_time = t_11_00
        and now = "t_11_00 + seconds 299", THEN conjunct2, THEN conjunct1] stored parsed ages(2)
    by simp
  have saved: "get_from_cache sample_lib (t_12_00 + seconds 299) ''/cycle''
        (save_to_cache sample_lib t_12_00 ''/cycle'' profile Map.empty)
     = (Inr profile, save_to_cache sample_lib t_12_00 ''/cycle'' profile Map.empty)"
    using cache_ttl [where L = sample_lib and saved_at = t_12_00
        and now = "t_12_00 + seconds 299" and cache_key = "''/cycle''" and payload = profile
        and ch = Map.empty, THEN conjunct2, THEN conjunct2, THEN conjunct1] round_trip ages(3)
    by simp
  have expired: "get_from_cache sample_lib (t_12_00 + seconds 300) ''/cycle''
        (save_to_cache sample_lib t_12_00 ''/cycle'' profile Map.empty)
     = (Inr JNull, Map.empty)"
    using cache_ttl [where L = sample_lib and saved_at = t_12_00
        and now = "t_12_00 + seconds 300" and cache_key = "''/cycle''" and payload = profile
        and ch = Map.empty, THEN conjunct2, THEN conjunct2, THEN conjunct2] round_trip ages(4)
    by simp
  from stale fresh saved expired show ?thesis
    by simp
qed

lemma sort_key_permutation:
  fixes p q :: "(string \<times> 'a) list"
  assumes "distinct (map fst p)" and "distinct (map fst q)" and "set p = set q"
  shows "sort_key fst p = sort_key fst q"
proof (rule sort_key_inj_key_eq)
  from assms have "distinct p" and "distinct q"
    by (simp_all add: distinct_map)
  with assms(3) show "mset p = mset (sort_key fst q)"
    by (simp add: set_eq_iff_mset_eq_distinct)
  from assms(1) show "inj_on fst (set p)"
    by (simp add: distinct_map)
  show "sorted (map fst (sort_key fst q))"
    by simp
qed

text \<open>
  Claim C8. Two parameter dictionaries with the same key-value bindings, in any
  order, give the same cache key for the same endpoint, whatever text \<^verbatim>\<open>json.dumps\<close>
  writes for a dictionary: \<^verbatim>\<open>sort_keys=True\<close> orders the items by key first.
\<close>

theorem cache_key_order_independent:
  assumes "distinct (map fst p)" and "distinct (map fst q)" and "set p = set q"
  shows "get_cache_key L endpoint (Some p) = get_cache_key L endpoint (Some q)"
proof -
  let ?f = "map_prod id sort_keys"
  have fst: "map fst (map ?f xs) = map fst xs" for xs :: "(string \<times> jval) list"
    by (simp add: comp_def)
  have "sort_key fst (map ?f p) = sort_key fst (map ?f q)"
    using assms by (intro sort_key_permutation) (simp_all only: fst set_map)
  moreover from assms(3) have "p = [] \<longleftrightarrow> q = []"
    by (metis set_empty)
  ultimately show ?thesis
    by (simp add: get_cache_key_def)
qed

theorem cache_key_order_independent_witness:
  "get_cache_key sample_lib ''/activity/workout''
     (Some [(''limit'', JInt 5), (''start'', JStr ''2024-01-01'')])
   = get_cache_key sample_lib ''/activity/workout''
     (Some [(''start'', JStr ''2024-01-01''), (''limit'', JInt 5)])"
proof -
  have "distinct (map fst [(''limit'', JInt 5), (''start'', JStr ''2024-01-01'')])"
    and "distinct (map fst [(''start'', JStr ''2024-01-01''), (''limit'', JInt 5)])"
    and "set [(''limit'', JInt 5), (''start'', JStr ''2024-01-01'')]
       = set [(''start'', JStr ''2024-01-01''), (''limit'', JInt 5)]"
    by auto
  then show ?thesis
    by (rule cache_key_order_independent)
qed

section \<open>Requests\<close>

lemma check_rate_limit_frame:
  assumes "check_rate_limit now c = (r, c1)"
  shows "cache c1 = cache c" and "token_manager c1 = token_manager c"
  using assms
  by (auto simp: check_rate_limit_def check_rate_limit_at_def roll_window_def Let_def
      split: if_splits)

lemma get_from_cache_frame:
  assumes "get_from_cache L now cache_key ch = (r, ch')"
  shows "ch' = ch \<or> (\<exists>entry cache_time. ch cache_key = Some entry
           \<and> fromisoformat L (cached_at entry) = Some cache_time
           \<and> now - cache_time \<ge> seconds 300 \<and> r = Inr JNull \<and> ch' = ch(cache_key := None))"
  using assms
  by (auto simp: get_from_cache_def CACHE_DURATION_def split: option.splits if_splits)

lemma handle_response_failure:
  assumes "handle_response L E cache_key outcome c = (Inl e, c')"
  shows "cache c' = cache c"
  using assms
  by (auto simp: handle_response_def split: http_outcome.splits if_splits option.splits)

lemma handle_response_cache:
  assumes "handle_response L E cache_key outcome c = (r, c')"
    and "cache c' k = Some entry" and "cache c k \<noteq> Some entry"
  shows "k = cache_key \<and> r = Inr (data entry)
    \<and> (\<exists>body. outcome = Response 200 body \<and> json_loads L body = Some (data entry))"
  using assms
  by (auto simp: handle_response_def save_to_cache_def
      split: http_outcome.splits if_splits option.splits)

lemma make_request_unfold:
  assumes "make_request L E endpoint params c = (r, c')"
  obtains (limited) c1 e where "check_rate_limit (now_rate E) c = (Inl e, c1)"
      "r = Inl e" "c' = c1"
    | (lookup_failed) c1 e ch where "check_rate_limit (now_rate E) c = (Inr (), c1)"
      "get_from_cache L (now_lookup E) (get_cache_key L endpoint params) (cache c1) = (Inl e, ch)"
      "r = Inl e" "c' = c1\<lparr>cache := ch\<rparr>"
    | (hit) c1 payload ch where "check_rate_limit (now_rate E) c = (Inr (), c1)"
      "get_from_cache L (now_lookup E) (get_cache_key L endpoint params) (cache c1)
         = (Inr payload, ch)"
      "truthy payload" "r = Inr payload" "c' = c1\<lparr>cache := ch\<rparr>"
    | (no_token) c1 payload ch e tm' where "check_rate_limit (now_rate E) c = (Inr (), c1)"
      "get_from_cache L (now_lookup E) (get_cache_key L endpoint params) (cache c1)
         = (Inr payload, ch)"
      "\<not> truthy payload"
      "get_headers L (token_inputs E) (token_manager c1) = (Inl e, tm')"
      "r = Inl e" "c' = c1\<lparr>cache := ch, token_manager := tm'\<rparr>"
    | (upstream) c1 payload ch access_token tm' where
      "check_rate_limit (now_rate E) c = (Inr (), c1)"
      "get_from_cache L (now_lookup E) (get_cache_key L endpoint params) (cache c1)
         = (Inr payload, ch)"
      "\<not> truthy payload"
      "get_headers L (token_inputs E) (token_manager c1) = (Inr access_token, tm')"
      "handle_response L E (get_cache_key L endpoint params)
         (api_get E (request_url endpoint) access_token
            (case params of None \<Rightarrow> [] | Some p \<Rightarrow> p))
         (c1\<lparr>cache := ch, token_manager := tm'\<rparr>) = (r, c')"
  using assms
  by (auto simp: make_request_def Let_def split: prod.splits sum.splits if_splits)

lemmas client_defs =
  client_fresh_def client_stale_def request_at_noon_def

lemma token_at_noon:
  "get_valid_access_token sample_lib (env_refresh_ok t_12_00) store_A = (Inr (JStr ''tokA''), store_A)"
proof -
  have "\<not> is_token_expired sample_lib t_12_00 (JDict
     [(''access_token'', JStr ''tokA''),
      (''refresh_token'', JStr ''refA''),
      (''token_type'', JStr ''Bearer''),
      (''expires_at'', JStr ''2024-01-01T13:00:00''),
      (''created_at'', JStr ''2024-01-01T12:00:00'')])"
    by (simp add: is_token_expired_def sample_defs time_defs)
  then show ?thesis
    by (simp add: get_valid_access_token_def load_store_A env_refresh_ok_def)
qed

lemma headers_at_noon:
  "get_headers sample_lib (env_refresh_ok t_12_00) store_A = (Inr (JStr ''tokA''), store_A)"
  by (simp add: get_headers_def token_at_noon)

lemma rate_at_noon:
  "check_rate_limit t_12_00 client_fresh = (Inr (), client_fresh\<lparr>request_count := 1\<rparr>)"
  "check_rate_limit t_12_00 client_stale = (Inr (), client_stale\<lparr>request_count := 1\<rparr>)"
  by (simp_all add: check_rate_limit_def check_rate_limit_at_def roll_window_def
      MAX_REQUESTS_PER_MINUTE_def client_defs seconds_def)

lemma lookup_at_noon:
  "get_from_cache sample_lib t_12_00 ''/recovery'' (cache client_fresh) = (Inr JNull, Map.empty)"
  "get_from_cache sample_lib t_12_00 ''/recovery'' (cache client_stale) = (Inr JNull, Map.empty)"
  by (simp_all add: get_from_cache_def client_defs sample_defs seconds_def CACHE_DURATION_def)

lemma request_at_noon_fields:
  "now_rate (request_at_noon x) = t_12_00" "now_lookup (request_at_noon x) = t_12_00"
  "now_insert (request_at_noon x) = t_12_00"
  "token_inputs (request_at_noon x) = env_refresh_ok t_12_00"
  "api_get (request_at_noon x) u a ps = x"
  "remove_succeeds (request_at_noon x)"
  "now_rate (request_at_noon_locked x) = t_12_00"
  "now_lookup (request_at_noon_locked x) = t_12_00"
  "token_inputs (request_at_noon_locked x) = env_refresh_ok t_12_00"
  "api_get (request_at_noon_locked x) u a ps = x"
  "\<not> remove_succeeds (request_at_noon_locked x)"
  by (simp_all add: request_at_noon_def request_at_noon_locked_def)

lemma request_timed_out:
  "make_request sample_lib (request_at_noon TimeoutException) ''/recovery'' None client_stale
     = (Inl RequestTimedOut, client_stale\<lparr>request_count := 1, cache := Map.empty\<rparr>)"
proof -
  have e: "now_rate (request_at_noon x) = t_12_00" "now_lookup (request_at_noon x) = t_12_00"
    "token_inputs (request_at_noon x) = env_refresh_ok t_12_00"
    "api_get (request_at_noon x) u a ps = x" for x u a ps
    by (simp_all add: request_at_noon_def)
  have t: "token_manager client_stale = store_A"
    by (simp add: client_stale_def)
  show ?thesis
    by (simp add: make_request_def e rate_at_noon get_cache_key_def lookup_at_noon t
        headers_at_noon handle_response_def)
qed

lemma request_unauthorized:
  "make_request sample_lib (request_at_noon (Response 401 ''Unauthorized'')) ''/recovery'' None
     client_fresh
     = (Inl AuthenticationFailed,
        client_fresh\<lparr>request_count := 1, cache := Map.empty,
          token_manager := store_A\<lparr>storage := None\<rparr>\<rparr>)"
proof -
  have t: "token_manager client_fresh = store_A"
    by (simp add: client_fresh_def)
  have c: "clear_tokens True store_A = store_A\<lparr>storage := None\<rparr>"
    by (simp add: clear_tokens_def store_A_def)
  show ?thesis
    by (simp add: make_request_def request_at_noon_fields rate_at_noon get_cache_key_def
        lookup_at_noon t headers_at_noon handle_response_def c)
qed

lemma request_succeeded:
  "make_request sample_lib (request_at_noon (Response 200 ''{profile}'')) ''/recovery'' None
     client_fresh
     = (Inr profile,
        client_fresh\<lparr>request_count := 1,
          cache := [''/recovery'' \<mapsto> \<lparr>data = profile, cached_at = ''2024-01-01T12:00:00''\<rparr>]\<rparr>)"
proof -
  have t: "token_manager client_fresh = store_A"
    by (simp add: client_fresh_def)
  have j: "json_loads sample_lib ''{profile}'' = Some profile"
    by (simp add: sample_lib_def sample_documents_def)
  have i: "isoformat sample_lib t_12_00 = ''2024-01-01T12:00:00''"
    by (simp add: sample_defs)
  have n: "\<not> truthy JNull"
    by simp
  show ?thesis
    by (simp add: make_request_def request_at_noon_fields rate_at_noon get_cache_key_def
        lookup_at_noon t headers_at_noon handle_response_def j save_to_cache_def i)
qed

text \<open>
  Claim C9, as amended. A request that fails (rate limit, no token, timeout, 401, 429,
  any other status, transport failure, a body that is not JSON) creates and changes no
  cache entry: the cache afterwards is the cache before, except that the lookup may
  have removed the entry of the request's own key when that entry was 300 seconds old
  or older. Whenever a request leaves an entry in the cache that was not there before,
  the entry is under the request's own key and holds the payload of a 200 response of
  the upstream call, which the request returns.
\<close>

theorem failed_request_cache_frame:
  "(make_request L E endpoint params c = (Inl e, c') \<longrightarrow>
      cache c' = cache c
      \<or> (\<exists>entry cache_time. cache c (get_cache_key L endpoint params) = Some entry
            \<and> fromisoformat L (cached_at entry) = Some cache_time
            \<and> now_lookup E - cache_time \<ge> seconds 300
            \<and> cache c' = (cache c)(get_cache_key L endpoint params := None)))
   \<and> (make_request L E endpoint params c = (r, c') \<and> cache c' k = Some new_entry
        \<and> cache c k \<noteq> Some new_entry \<longrightarrow>
      k = get_cache_key L endpoint params \<and> r = Inr (data new_entry)
      \<and> (\<exists>access_token body.
            api_get E (request_url endpoint) access_token
              (case params of None \<Rightarrow> [] | Some p \<Rightarrow> p) = Response 200 body
            \<and> json_loads L body = Some (data new_entry)))"
proof (rule conjI; rule impI)
  let ?key = "get_cache_key L endpoint params"
  let ?evicted = "\<lambda>ch. ch = cache c
      \<or> (\<exists>entry cache_time. cache c ?key = Some entry
            \<and> fromisoformat L (cached_at entry) = Some cache_time
            \<and> now_lookup E - cache_time \<ge> seconds 300
            \<and> ch = (cache c)(?key := None))"
  assume "make_request L E endpoint params c = (Inl e, c')"
  then show "?evicted (cache c')"
  proof (cases rule: make_request_unfold)
    case (limited c1 e)
    then show ?thesis
      using check_rate_limit_frame(1) by simp
  next
    case (lookup_failed c1 e ch)
    then show ?thesis
      using check_rate_limit_frame(1) [OF lookup_failed(1)]
        get_from_cache_frame [OF lookup_failed(2)] by auto
  next
    case (hit c1 payload ch)
    then show ?thesis by simp
  next
    case (no_token c1 payload ch e tm')
    then show ?thesis
      using check_rate_limit_frame(1) [OF no_token(1)]
        get_from_cache_frame [OF no_token(2)] by auto
  next
    case (upstream c1 payload ch access_token tm')
    from handle_response_failure [OF upstream(5)] have "cache c' = ch"
      by simp
    then show ?thesis
      using check_rate_limit_frame(1) [OF upstream(1)]
        get_from_cache_frame [OF upstream(2)] by auto
  qed
next
  let ?key = "get_cache_key L endpoint params"
  assume a: "make_request L E endpoint params c = (r, c') \<and> cache c' k = Some new_entry
        \<and> cache c k \<noteq> Some new_entry"
  then have m: "make_request L E endpoint params c = (r, c')"
    and new: "cache c' k = Some new_entry" and old: "cache c k \<noteq> Some new_entry"
    by simp_all
  have kept: "ch k = Some new_entry \<Longrightarrow> False"
    if "get_from_cache L (now_lookup E) ?key (cache c1) = (x, ch)"
      and "check_rate_limit (now_rate E) c = (y, c1)" for x y ch c1
    using get_from_cache_frame [OF that(1)] check_rate_limit_frame(1) [OF that(2)] old
    by (auto split: if_splits)
  from m show "k = ?key \<and> r = Inr (data new_entry)
      \<and> (\<exists>access_token body.
            api_get E (request_url endpoint) access_token
              (case params of None \<Rightarrow> [] | Some p \<Rightarrow> p) = Response 200 body
            \<and> json_loads L body = Some (data new_entry))"
  proof (cases rule: make_request_unfold)
    case (limited c1 e)
    then show ?thesis
      using check_rate_limit_frame(1) [OF limited(1)] new old by simp
  next
    case (lookup_failed c1 e ch)
    then show ?thesis
      using kept [OF lookup_failed(2,1)] new by simp
  next
    case (hit c1 payload ch)
    then show ?thesis
      using kept [OF hit(2,1)] new by simp
  next
    case (no_token c1 payload ch e tm')
    then show ?thesis
      using kept [OF no_token(2,1)] new by simp
  next
    case (upstream c1 payload ch access_token tm')
    have "cache (c1\<lparr>cache := ch, token_manager := tm'\<rparr>) k \<noteq> Some new_entry"
      using kept [OF upstream(2,1)] by auto
    from handle_response_cache [OF upstream(5) new this] show ?thesis
      by blast
  qed
qed

theorem failed_request_cache_frame_witness:
  "(cache (snd (make_request sample_lib (request_at_noon TimeoutException) ''/recovery'' None
        client_stale)) = cache client_stale
    \<or> cache (snd (make_request sample_lib (request_at_noon TimeoutException) ''/recovery'' None
        client_stale)) = (cache client_stale)(''/recovery'' := None))
   \<and> cache (snd (make_request sample_lib (request_at_noon (Response 401 ''Unauthorized''))
        ''/recovery'' None client_fresh)) = cache client_fresh
   \<and> fst (make_request sample_lib (request_at_noon (Response 200 ''{profile}'')) ''/recovery''
        None client_fresh) = Inr profile"
proof -
  have key: "get_cache_key sample_lib ''/recovery'' None = ''/recovery''"
    by (simp add: get_cache_key_def)
  have timeout: "cache (snd (make_request sample_lib (request_at_noon TimeoutException)
        ''/recovery'' None client_stale)) = cache client_stale
    \<or> cache (snd (make_request sample_lib (request_at_noon TimeoutException) ''/recovery'' None
        client_stale)) = (cache client_stale)(''/recovery'' := None)"
    using failed_request_cache_frame [where L = sample_lib
        and E = "request_at_noon TimeoutException" and endpoint = "''/recovery''"
        and params = None and c = client_stale and e = RequestTimedOut
        and c' = "client_stale\<lparr>request_count := 1, cache := Map.empty\<rparr>",
        THEN conjunct1] request_timed_out
    by (auto simp: key)
  have unauthorized: "cache (snd (make_request sample_lib
        (request_at_noon (Response 401 ''Unauthorized'')) ''/recovery'' None client_fresh))
      = cache client_fresh"
    using failed_request_cache_frame [where L = sample_lib
        and E = "request_at_noon (Response 401 ''Unauthorized'')" and endpoint = "''/recovery''"
        and params = None and c = client_fresh and e = AuthenticationFailed
        and c' = "client_fresh\<lparr>request_count := 1, cache := Map.empty,
          token_manager := store_A\<lparr>storage := None\<rparr>\<rparr>",
        THEN conjunct1] request_unauthorized
    by (auto simp: key client_fresh_def)
  have created: "fst (make_request sample_lib (request_at_noon (Response 200 ''{profile}''))
        ''/recovery'' None client_fresh) = Inr profile"
    using failed_request_cache_frame [where L = sample_lib
        and E = "request_at_noon (Response 200 ''{profile}'')" and endpoint = "''/recovery''"
        and params = None and c = client_fresh and r = "Inr profile" and k = "''/recovery''"
        and new_entry = "\<lparr>data = profile, cached_at = ''2024-01-01T12:00:00''\<rparr>"
        and c' = "client_fresh\<lparr>request_count := 1,
          cache := [''/recovery'' \<mapsto> \<lparr>data = profile, cached_at = ''2024-01-01T12:00:00''\<rparr>]\<rparr>",
        THEN conjunct2] request_succeeded
    by (simp add: client_fresh_def)
  from timeout unauthorized created show ?thesis
    by simp
qed

text \<open>
  Claim C9 as stated says a failed request leaves the cache unchanged. A request for
  \<^verbatim>\<open>/recovery\<close> at 12:00:00 that times out upstream finds the entry cached at 11:00:00
  and removes it before the upstream call.
\<close>

theorem failed_request_cache_counterexample:
  "fst (make_request sample_lib (request_at_noon TimeoutException) ''/recovery'' None client_stale)
     = Inl RequestTimedOut
   \<and> cache client_stale ''/recovery''
     = Some \<lparr>data = profile, cached_at = ''2024-01-01T11:00:00''\<rparr>
   \<and> cache (snd (make_request sample_lib (request_at_noon TimeoutException) ''/recovery'' None
        client_stale)) ''/recovery'' = None"
  by (simp add: request_timed_out) (simp add: client_stale_def)

text \<open>
  Claim C2, as amended. A request that passes the rate limiter, misses the cache,
  obtains an access token and receives a 401 response from upstream calls
  \<^verbatim>\<open>clear_tokens\<close> and fails with "Authentication failed". When the removal of the
  credential file succeeds, the file is gone afterwards and \<^verbatim>\<open>get_valid_access_token\<close>
  then returns \<^verbatim>\<open>None\<close> whatever the clock and the refresh endpoint say. When the
  removal fails, the failure is logged inside \<^verbatim>\<open>clear_tokens\<close> and the token store is
  left as it was.
\<close>

theorem unauthorized_clears_credentials:
  assumes "check_rate_limit (now_rate E) c = (Inr (), c1)"
    and "get_from_cache L (now_lookup E) (get_cache_key L endpoint params) (cache c1)
           = (Inr cached_payload, ch)"
    and "\<not> truthy cached_payload"
    and "get_headers L (token_inputs E) (token_manager c1) = (Inr access_token, tm')"
    and "api_get E (request_url endpoint) access_token
           (case params of None \<Rightarrow> [] | Some p \<Rightarrow> p) = Response 401 body"
  shows "fst (make_request L E endpoint params c) = Inl AuthenticationFailed
    \<and> (remove_succeeds E \<longrightarrow>
         storage (token_manager (snd (make_request L E endpoint params c))) = None
         \<and> get_valid_access_token L E' (token_manager (snd (make_request L E endpoint params c)))
             = (Inr JNull, token_manager (snd (make_request L E endpoint params c))))
    \<and> (\<not> remove_succeeds E \<longrightarrow>
         token_manager (snd (make_request L E endpoint params c)) = tm')"
proof -
  have request: "make_request L E endpoint params c
      = (Inl AuthenticationFailed,
         c1\<lparr>cache := ch, token_manager := clear_tokens (remove_succeeds E) tm'\<rparr>)"
    using assms by (simp add: make_request_def handle_response_def)
  have removed: "storage (clear_tokens True tm') = None"
    by (simp add: clear_tokens_def split: option.split)
  have kept: "clear_tokens False tm' = tm'"
    by (simp add: clear_tokens_def split: option.split)
  show ?thesis
  proof (cases "remove_succeeds E")
    case True
    with request removed show ?thesis
      by (simp add: get_valid_access_token_def load_tokens_def)
  next
    case False
    with request kept show ?thesis
      by simp
  qed
qed

theorem unauthorized_clears_credentials_witness:
  "fst (make_request sample_lib (request_at_noon (Response 401 ''Unauthorized'')) ''/recovery''
        None client_fresh) = Inl AuthenticationFailed
   \<and> storage (token_manager (snd (make_request sample_lib
        (request_at_noon (Response 401 ''Unauthorized'')) ''/recovery'' None client_fresh))) = None
   \<and> fst (get_valid_access_token sample_lib (env_refresh_ok t_12_00)
        (token_manager (snd (make_request sample_lib
           (request_at_noon (Response 401 ''Unauthorized'')) ''/recovery'' None client_fresh))))
       = Inr JNull"
proof -
  have key: "get_cache_key sample_lib ''/recovery'' None = ''/recovery''"
    by (simp add: get_cache_key_def)
  have r: "check_rate_limit (now_rate (request_at_noon (Response 401 ''Unauthorized'')))
      client_fresh = (Inr (), client_fresh\<lparr>request_count := 1\<rparr>)"
    by (simp add: request_at_noon_fields rate_at_noon)
  have l: "get_from_cache sample_lib (now_lookup (request_at_noon (Response 401 ''Unauthorized'')))
      (get_cache_key sample_lib ''/recovery'' None)
      (cache (client_fresh\<lparr>request_count := 1\<rparr>)) = (Inr JNull, Map.empty)"
    using lookup_at_noon(1) by (simp add: request_at_noon_fields key)
  have n: "\<not> truthy JNull"
    by simp
  have h: "get_headers sample_lib (token_inputs (request_at_noon (Response 401 ''Unauthorized'')))
      (token_manager (client_fresh\<lparr>request_count := 1\<rparr>)) = (Inr (JStr ''tokA''), store_A)"
    by (simp add: request_at_noon_fields headers_at_noon client_fresh_def)
  have u: "api_get (request_at_noon (Response 401 ''Unauthorized'')) (request_url ''/recovery'')
      (JStr ''tokA'') (case None of None \<Rightarrow> [] | Some p \<Rightarrow> p) = Response 401 ''Unauthorized''"
    by (simp add: request_at_noon_fields)
  have ok: "remove_succeeds (request_at_noon (Response 401 ''Unauthorized''))"
    by (simp add: request_at_noon_fields)
  show ?thesis
    using unauthorized_clears_credentials [OF r l n h u, of "env_refresh_ok t_12_00"] ok
    by simp
qed

text \<open>
  Claim C2 as stated says that every 401 deletes the credential record. When
  \<^verbatim>\<open>os.remove\<close> fails, the request that receives the 401 still fails with
  "Authentication failed", the credential file is still there, and the next
  \<^verbatim>\<open>get_valid_access_token\<close> returns the stored token.
\<close>

theorem unauthorized_removal_fails_counterexample:
  "fst (make_request sample_lib (request_at_noon_locked (Response 401 ''Unauthorized''))
        ''/recovery'' None client_fresh) = Inl AuthenticationFailed
   \<and> storage (token_manager (snd (make_request sample_lib
        (request_at_noon_locked (Response 401 ''Unauthorized'')) ''/recovery'' None client_fresh)))
       = Some ''{record A}''
   \<and> get_valid_access_token sample_lib (env_refresh_ok t_12_00)
        (token_manager (snd (make_request sample_lib
           (request_at_noon_locked (Response 401 ''Unauthorized'')) ''/recovery'' None
           client_fresh)))
       = (Inr (JStr ''tokA''), store_A)"
proof -
  have t: "token_manager client_fresh = store_A"
    by (simp add: client_fresh_def)
  have c: "clear_tokens False store_A = store_A"
    by (simp add: clear_tokens_def store_A_def)
  have "make_request sample_lib (request_at_noon_locked (Response 401 ''Unauthorized''))
      ''/recovery'' None client_fresh
     = (Inl AuthenticationFailed,
        client_fresh\<lparr>request_count := 1, cache := Map.empty, token_manager := store_A\<rparr>)"
    by (simp add: make_request_def request_at_noon_fields rate_at_noon get_cache_key_def
        lookup_at_noon t headers_at_noon handle_response_def c)
  then show ?thesis
    by (simp add: token_at_noon) (simp add: store_A_def)
qed

end
